theory Spec2Isabelle
  imports Complex_Main "HOL-Library.Word"
begin

section \<open>Wire codec of the data link (link.py)\<close>

text \<open>
  Python exceptions are values. Only the classes that the modelled code can raise are
  listed; \<open>HandlerError\<close> stands for whatever an opcode handler of the scene adapter
  raises (its argument tells two such exceptions apart).
\<close>

datatype exn =
    StructError
  | UnicodeEncodeError
  | UnicodeDecodeError
  | AttributeError
  | UnboundLocalError
  | TypeError
  | KeyError
  | OSError
  | HandlerError nat

type_synonym byte = "8 word"

text \<open>
  A Python \<open>str\<close> is a sequence of code points, and \<open>len(s)\<close> counts code points.
  A code point is a natural number; the values from \<open>0x110000\<close> on are not code points
  of any \<open>str\<close> and the encoder below rejects them together with the surrogates, which
  \<open>bytes(s, encoding="utf-8")\<close> refuses with UnicodeEncodeError.
\<close>

type_synonym pystr = "nat list"

definition utf8_encode_cp :: "nat \<Rightarrow> byte list option" where
  "utf8_encode_cp c =
     (if c < 0x80 then Some [of_nat c]
      else if c < 0x800 then Some [of_nat (0xC0 + c div 64), of_nat (0x80 + c mod 64)]
      else if c < 0x10000 then
        (if 0xD800 \<le> c \<and> c \<le> 0xDFFF then None
         else Some [of_nat (0xE0 + c div 4096), of_nat (0x80 + (c div 64) mod 64),
                    of_nat (0x80 + c mod 64)])
      else if c < 0x110000 then
        Some [of_nat (0xF0 + c div 262144), of_nat (0x80 + (c div 4096) mod 64),
              of_nat (0x80 + (c div 64) mod 64), of_nat (0x80 + c mod 64)]
      else None)"

fun utf8_encode :: "pystr \<Rightarrow> byte list option" where
  "utf8_encode [] = Some []"
| "utf8_encode (c # cs) =
     (case utf8_encode_cp c of
        None \<Rightarrow> None
      | Some bs \<Rightarrow> (case utf8_encode cs of None \<Rightarrow> None | Some rest \<Rightarrow> Some (bs @ rest)))"

definition is_cont :: "byte \<Rightarrow> bool" where
  "is_cont b = (0x80 \<le> unat b \<and> unat b < 0xC0)"

definition cont_bits :: "byte \<Rightarrow> nat" where
  "cont_bits b = unat b - 0x80"

text \<open>
  Strict UTF-8 decoding, as \<open>bytes.decode(encoding="utf-8")\<close> does it: a truncated
  sequence, a stray continuation byte, an overlong form, a surrogate and a value above
  \<open>0x10FFFF\<close> all raise UnicodeDecodeError (\<open>None\<close> here).
\<close>

fun utf8_decode :: "byte list \<Rightarrow> pystr option" where
  "utf8_decode [] = Some []"
| "utf8_decode (b0 # bs) =
     (if unat b0 < 0x80 then
        (case utf8_decode bs of None \<Rightarrow> None | Some cs \<Rightarrow> Some (unat b0 # cs))
      else if 0xC2 \<le> unat b0 \<and> unat b0 < 0xE0 then
        (case bs of
           b1 # r1 \<Rightarrow>
             if is_cont b1 then
               (case utf8_decode r1 of
                  None \<Rightarrow> None
                | Some cs \<Rightarrow> Some (((unat b0 - 0xC0) * 64 + cont_bits b1) # cs))
             else None
         | _ \<Rightarrow> None)
      else if 0xE0 \<le> unat b0 \<and> unat b0 < 0xF0 then
        (case bs of
           b1 # b2 # r2 \<Rightarrow>
             (let c = (unat b0 - 0xE0) * 4096 + cont_bits b1 * 64 + cont_bits b2
              in if is_cont b1 \<and> is_cont b2 \<and> 0x800 \<le> c \<and> \<not> (0xD800 \<le> c \<and> c \<le> 0xDFFF) then
                   (case utf8_decode r2 of None \<Rightarrow> None | Some cs \<Rightarrow> Some (c # cs))
                 else None)
         | _ \<Rightarrow> None)
      else if 0xF0 \<le> unat b0 \<and> unat b0 < 0xF5 then
        (case bs of
           b1 # b2 # b3 # r3 \<Rightarrow>
             (let c = (unat b0 - 0xF0) * 262144 + cont_bits b1 * 4096
                      + cont_bits b2 * 64 + cont_bits b3
              in if is_cont b1 \<and> is_cont b2 \<and> is_cont b3 \<and> 0x10000 \<le> c \<and> c < 0x110000 then
                   (case utf8_decode r3 of None \<Rightarrow> None | Some cs \<Rightarrow> Some (c # cs))
                 else None)
         | _ \<Rightarrow> None)
      else None)"

text \<open>\<open>struct.pack("!I", n)\<close>: four bytes, big-endian; struct.error outside 32 bits.\<close>

definition pack_u32 :: "nat \<Rightarrow> exn + byte list" where
  "pack_u32 n =
     (if n < 2 ^ 32 then
        Inr [of_nat (n div 16777216), of_nat ((n div 65536) mod 256),
             of_nat ((n div 256) mod 256), of_nat (n mod 256)]
      else Inl StructError)"

text \<open>
  \<open>struct.unpack_from("!I", buffer, offset)[0]\<close>: struct.error unless four bytes are
  there from \<open>offset\<close> on.
\<close>

definition be_u32 :: "byte list \<Rightarrow> nat" where
  "be_u32 bs = foldl (\<lambda>acc b. acc * 256 + unat b) 0 bs"

definition unpack_from_u32 :: "byte list \<Rightarrow> nat \<Rightarrow> exn + nat" where
  "unpack_from_u32 buffer offset =
     (if offset + 4 \<le> length buffer then Inr (be_u32 (take 4 (drop offset buffer)))
      else Inl StructError)"

text \<open>
  \<^verbatim>\<open>
  def pack_string(s) -> bytearray:
      buffer = bytearray()
      buffer += struct.pack("!I", len(s))
      buffer += bytes(s, encoding="utf-8")
      return buffer
  \<close>
  The prefix is \<open>len(s)\<close>, the number of code points of \<open>s\<close>.
\<close>

definition pack_string :: "pystr \<Rightarrow> exn + byte list" where
  "pack_string s =
     (case pack_u32 (length s) of
        Inl e \<Rightarrow> Inl e
      | Inr prefix \<Rightarrow>
          (case utf8_encode s of
             None \<Rightarrow> Inl UnicodeEncodeError
           | Some body \<Rightarrow> Inr (prefix @ body)))"

text \<open>
  \<^verbatim>\<open>
  def unpack_string(buffer, offset=0):
      length = struct.unpack_from("!I", buffer, offset)[0]
      offset += 4
      string: bytearray = buffer[offset:offset+length]
      offset += length
      return offset, string.decode(encoding="utf-8")
  \<close>
  A Python slice never raises: \<open>buffer[a:a+n]\<close> is clamped to the end of the buffer,
  which is what \<open>take n (drop a buffer)\<close> computes.
\<close>

definition unpack_string :: "byte list \<Rightarrow> nat \<Rightarrow> exn + (nat \<times> pystr)" where
  "unpack_string buffer offset =
     (case unpack_from_u32 buffer offset of
        Inl e \<Rightarrow> Inl e
      | Inr len \<Rightarrow>
          (let offset1 = offset + 4;
               string = take len (drop offset1 buffer);
               offset2 = offset1 + len
           in case utf8_decode string of
                None \<Rightarrow> Inl UnicodeDecodeError
              | Some s \<Rightarrow> Inr (offset2, s)))"


section \<open>Pose records\<close>

text \<open>
  The floats of a pose record are modelled as real numbers: the rounding of
  \<open>struct.pack("!f", ...)\<close> to 32 bits is left out, the scale factors are kept.
  A \<open>world_transform\<close> is the matrix \<open>T = M @ pose_bone.matrix\<close> as the encoder reads
  it: \<open>T.to_translation()\<close>, \<open>T.to_quaternion()\<close> (kept as x, y, z, w) and
  \<open>T.to_scale()\<close>.
\<close>

type_synonym vec3 = "real \<times> real \<times> real"

record world_transform =
  translation :: vec3
  quaternion_xyzw :: "real \<times> real \<times> real \<times> real"
  scale :: vec3

record pose_bone =
  bone_name :: string
  world :: world_transform

definition vec3_mul :: "vec3 \<Rightarrow> real \<Rightarrow> vec3" where
  "vec3_mul v k = (case v of (x, y, z) \<Rightarrow> (x * k, y * k, z * k))"

text \<open>The ten fields of \<open>struct.pack("!ffffffffff", t.x, t.y, t.z, r.x, r.y, r.z, r.w, s.x, s.y, s.z)\<close>.\<close>

definition pack_10f :: "vec3 \<Rightarrow> real \<times> real \<times> real \<times> real \<Rightarrow> vec3 \<Rightarrow> real list" where
  "pack_10f t r s =
     (case (t, r, s) of
        ((t_x, t_y, t_z), (r_x, r_y, r_z, r_w), (s_x, s_y, s_z)) \<Rightarrow>
          [t_x, t_y, t_z, r_x, r_y, r_z, r_w, s_x, s_y, s_z])"

text \<open>
  The two branches of the bone loop of \<open>encode_pose_data\<close>.
  \<^verbatim>\<open>
  if chr_cache.rigified:
      ...
      for pose_bone in export_rig.pose.bones:
          if pose_bone.name != "root" and not pose_bone.name.startswith("DEF-"):
              T: Matrix = M @ pose_bone.matrix
              t = T.to_translation() * 100
              r = T.to_quaternion()
              s = T.to_scale()
              data += struct.pack("!ffffffffff", ...)
  else:
      ...
      for pose_bone in rig.pose.bones:
          T: Matrix = M @ pose_bone.matrix
          t = T.to_translation()
          r = T.to_quaternion()
          s = T.to_scale()
          data += struct.pack("!ffffffffff", ...)
  \<close>
\<close>

definition encode_bone_rigified :: "world_transform \<Rightarrow> real list" where
  "encode_bone_rigified T =
     (let t = vec3_mul (translation T) 100; r = quaternion_xyzw T; s = scale T
      in pack_10f t r s)"

definition encode_bone_plain :: "world_transform \<Rightarrow> real list" where
  "encode_bone_plain T =
     (let t = translation T; r = quaternion_xyzw T; s = scale T
      in pack_10f t r s)"

definition startswith :: "string \<Rightarrow> string \<Rightarrow> bool" where
  "startswith s p = (take (length p) s = p)"

text \<open>
  \<open>rigified\<close> is \<open>chr_cache.rigified\<close>, \<open>mode_ok\<close> the result of
  \<open>utils.object_mode_to\<close> on the rig; \<open>bs\<close> are the pose bones of the rig the branch
  reads, in order.
\<close>

definition encode_actor_bones :: "bool \<Rightarrow> bool \<Rightarrow> pose_bone list \<Rightarrow> real list" where
  "encode_actor_bones rigified mode_ok bs =
     (if rigified then
        (if mode_ok then
           concat (map (\<lambda>b. encode_bone_rigified (world b))
                     (filter (\<lambda>b. bone_name b \<noteq> ''root'' \<and> \<not> startswith (bone_name b) ''DEF-'') bs))
         else [])
      else
        (if mode_ok then concat (map (\<lambda>b. encode_bone_plain (world b)) bs) else []))"

text \<open>
  The decoder's bone loop, on the float fields that follow the bone count.
  \<^verbatim>\<open>
  for bone_name in actor.bones:
      tx,ty,tz,rx,ry,rz,rw,sx,sy,sz = struct.unpack_from("!ffffffffff", pose_data, offset)
      offset += 40
      if actor:
          ...
          loc = Vector((tx, ty, tz)) * 0.01
          rot = Quaternion((rw, rx, ry, rz))
          sca = Vector((sx, sy, sz))
  \<close>
  The result lists, per template bone, the location, rotation (w, x, y, z) and scale given
  to the pose bone. \<open>struct.unpack_from\<close> raises struct.error when fewer than ten floats
  are left.
\<close>

record bone_pose =
  loc :: vec3
  rot_wxyz :: "real \<times> real \<times> real \<times> real"
  sca :: vec3

definition decode_bone :: "real list \<Rightarrow> exn + bone_pose" where
  "decode_bone fs =
     (case fs of
        t_x # t_y # t_z # r_x # r_y # r_z # r_w # s_x # s_y # s_z # _ \<Rightarrow>
          Inr \<lparr>loc = vec3_mul (t_x, t_y, t_z) 0.01,
               rot_wxyz = (r_w, r_x, r_y, r_z),
               sca = (s_x, s_y, s_z)\<rparr>
      | _ \<Rightarrow> Inl StructError)"

fun decode_bones :: "string list \<Rightarrow> real list \<Rightarrow> exn + bone_pose list" where
  "decode_bones [] fs = Inr []"
| "decode_bones (bone # names) fs =
     (case decode_bone fs of
        Inl e \<Rightarrow> Inl e
      | Inr p \<Rightarrow>
          (case decode_bones names (drop 10 fs) of
             Inl e \<Rightarrow> Inl e
           | Inr ps \<Rightarrow> Inr (p # ps)))"


section \<open>Sockets and the state of the link service\<close>

text \<open>
  The operating system's side of a TCP socket, as far as the service observes it.
  \<open>inbuf\<close> holds the bytes that have arrived and were not read yet, \<open>outbuf\<close> the
  bytes written with \<open>sendall\<close>, \<open>backlog\<close> the connections waiting on a listening
  socket (descriptor of the new socket, peer address, peer port).
  \<open>PeerClosed\<close>: the peer has closed its side in an orderly way, so that once \<open>inbuf\<close>
  is empty \<open>recv\<close> returns the empty bytes object. \<open>SockReset\<close>: the connection is
  broken and every read or write raises OSError.
\<close>

datatype sock_cond = SockOpen | PeerClosed | SockReset

record sock =
  inbuf :: "byte list"
  outbuf :: "byte list"
  cond :: sock_cond
  backlog :: "(nat \<times> string \<times> nat) list"

definition readable :: "sock \<Rightarrow> bool" where
  "readable k = (inbuf k \<noteq> [] \<or> cond k \<noteq> SockOpen \<or> backlog k \<noteq> [])"

text \<open>
  \<open>select.select(socks, [], [], 0)[0]\<close>: the sockets of the list that can be read
  without blocking. It raises when a socket of the list is not a valid descriptor.
\<close>

definition select_readable :: "(nat \<Rightarrow> sock option) \<Rightarrow> nat list \<Rightarrow> exn + nat list" where
  "select_readable n socks =
     (if list_ex (\<lambda>fd. n fd = None) socks then Inl OSError
      else Inr (filter (\<lambda>fd. case n fd of None \<Rightarrow> False | Some k \<Rightarrow> readable k) socks))"

text \<open>
  \<open>sock.recv(n)\<close>: at most \<open>n\<close> bytes of what has arrived; the empty bytes object
  after an orderly close; socket.timeout (an OSError) when nothing arrives within
  \<open>SOCKET_TIMEOUT\<close> seconds.
\<close>

definition sock_recv :: "nat \<Rightarrow> sock \<Rightarrow> exn + (byte list \<times> sock)" where
  "sock_recv n k =
     (if cond k = SockReset then Inl OSError
      else if inbuf k \<noteq> [] then Inr (take n (inbuf k), k\<lparr>inbuf := drop n (inbuf k)\<rparr>)
      else if cond k = PeerClosed then Inr ([], k)
      else Inl OSError)"

definition sock_sendall :: "byte list \<Rightarrow> sock \<Rightarrow> exn + sock" where
  "sock_sendall bs k =
     (if cond k = SockReset then Inl OSError else Inr (k\<lparr>outbuf := outbuf k @ bs\<rparr>))"

text \<open>
  What the service does to the outside is recorded in order: the signals it emits (the
  \<open>Signal\<close> attributes of \<open>LinkService\<close>), the lines it logs, and the writing of an
  actor's cached samples into animation curves.
\<close>

datatype event =
    SigListening
  | SigConnecting
  | SigConnected
  | SigLostConnection
  | SigServerStopped
  | SigClientStopped
  | SigReceived nat "byte list option"
  | SigAccepted string nat
  | SigSent
  | SigChanged
  | SigSequence
  | LogInfo string
  | LogError string
  | LogAlways string
  | Print string
  | WroteActions nat

datatype json =
    JNull
  | JBool bool
  | JNum real
  | JStr pystr
  | JArr "json list"
  | JObj "(string \<times> json) list"

text \<open>\<open>json_data[key]\<close>: KeyError on a dictionary without the key, TypeError on anything else.\<close>

definition json_getitem :: "json \<Rightarrow> string \<Rightarrow> exn + json" where
  "json_getitem j key =
     (case j of
        JObj kvs \<Rightarrow> (case map_of kvs key of None \<Rightarrow> Inl KeyError | Some v \<Rightarrow> Inr v)
      | _ \<Rightarrow> Inl TypeError)"

text \<open>
  \<open>class LinkActor\<close>. The actor objects live in a store (\<open>actor_objs\<close> below) and
  the lists of \<open>LinkData\<close> hold references into it, as the Python lists hold references
  to shared objects. \<open>cache\<close> is the per-actor sample cache that \<open>prep_rig\<close> builds:
  frame range and, per curve, the flat list of frame and value pairs.
\<close>

record actor_cache =
  cache_start :: int
  cache_end :: int
  cache_curves :: "(string \<times> real list) list"

record LinkActor =
  actor_name :: string
  link_id :: string
  bones :: "string list"
  expressions :: "string list"
  visemes :: "string list"
  morphs :: "string list"
  cache :: "actor_cache option"

record LinkData =
  actors :: "nat list"
  pose_frame :: int
  pose_actors :: "nat list option"
  sequence_current_frame :: int
  sequence_start_frame :: int
  sequence_end_frame :: int
  sequence_actors :: "nat list option"

text \<open>
  \<^verbatim>\<open>
  def reset(self):
      self.actors = []
      self.sequence_actors = None
      self.pose_actors = None
  \<close>
\<close>

definition reset :: "LinkData \<Rightarrow> LinkData" where
  "reset d = d\<lparr>actors := [], sequence_actors := None, pose_actors := None\<rparr>"

text \<open>
  The attributes of the one \<open>LinkService\<close> object, followed by what it shares with the
  rest of the process: the module globals \<open>LINK_DATA\<close> (\<open>link_data\<close>, the object
  \<open>self.link_data\<close> refers to as well) and \<open>LINK_SERVICE\<close> (\<open>link_service_bound\<close>:
  whether the global is bound to the service rather than \<open>None\<close>), the actor objects,
  the sockets of the operating system by descriptor, and the record of events.
  \<open>timer\<close> is \<open>None\<close>, \<open>False\<close> or \<open>True\<close> in the source and only tested for truth.
\<close>

record state =
  timer :: bool
  server_sock :: "nat option"
  client_sock :: "nat option"
  server_sockets :: "nat list"
  client_sockets :: "nat list"
  client_ip :: string
  client_port :: nat
  is_listening :: bool
  is_connected :: bool
  is_connecting :: bool
  ping_timer :: real
  keepalive_timer :: real
  time :: real
  is_data :: bool
  is_sequence :: bool
  local_app :: "string option"
  local_version :: "string option"
  local_path :: "string option"
  remote_app :: "json option"
  remote_version :: "json option"
  remote_path :: "json option"
  remote_exe :: "json option"
  link_data :: LinkData
  link_service_bound :: bool
  actor_objs :: "nat \<Rightarrow> LinkActor"
  net :: "nat \<Rightarrow> sock option"
  events :: "event list"

text \<open>
  What the module takes from Blender and from the JSON library: \<open>json.loads\<close>, the
  handlers of the scene adapter (\<open>receive_character_template\<close>, \<open>receive_pose\<close>, ...,
  \<open>receive_camera_sync\<close>, and the part of \<open>receive_notify\<close> that follows the test of
  its argument), the callbacks connected to the \<open>sequence\<close> signal, and the strings
  \<open>send_hello\<close> reads. A handler returns the exception it raised, if any, and the state
  it left behind.
\<close>

record env =
  json_loads :: "pystr \<Rightarrow> exn + json"
  handlers :: "nat \<Rightarrow> byte list option \<Rightarrow> state \<Rightarrow> exn option \<times> state"
  on_sequence :: "state \<Rightarrow> exn option \<times> state"
  version_string :: string
  link_data_path :: string
  hello_payload :: "byte list"

definition BLENDER_PORT :: nat where "BLENDER_PORT = 9334"
definition HANDSHAKE_TIMEOUT_S :: real where "HANDSHAKE_TIMEOUT_S = 60"
definition KEEPALIVE_TIMEOUT_S :: real where "KEEPALIVE_TIMEOUT_S = 300"
definition PING_INTERVAL_S :: real where "PING_INTERVAL_S = 120"
definition MAX_CHUNK_SIZE :: nat where "MAX_CHUNK_SIZE = 32768"
definition CLIENT_ONLY :: bool where "CLIENT_ONLY = True"
definition MAX_RECEIVE :: nat where "MAX_RECEIVE = 24"

text \<open>\<open>class OpCodes(IntEnum)\<close>\<close>

definition HELLO :: nat where "HELLO = 1"
definition PING :: nat where "PING = 2"
definition STOP :: nat where "STOP = 10"
definition DISCONNECT :: nat where "DISCONNECT = 11"
definition NOTIFY :: nat where "NOTIFY = 50"
definition MORPH :: nat where "MORPH = 90"
definition MORPH_UPDATE :: nat where "MORPH_UPDATE = 91"
definition CHARACTER :: nat where "CHARACTER = 100"
definition CHARACTER_UPDATE :: nat where "CHARACTER_UPDATE = 101"
definition PROP_opcode :: nat where "PROP_opcode = 102"
definition RIGIFY :: nat where "RIGIFY = 110"
definition TEMPLATE :: nat where "TEMPLATE = 200"
definition POSE :: nat where "POSE = 210"
definition POSE_FRAME :: nat where "POSE_FRAME = 211"
definition SEQUENCE :: nat where "SEQUENCE = 220"
definition SEQUENCE_FRAME :: nat where "SEQUENCE_FRAME = 221"
definition SEQUENCE_END :: nat where "SEQUENCE_END = 222"
definition LIGHTS :: nat where "LIGHTS = 230"
definition CAMERA_SYNC :: nat where "CAMERA_SYNC = 231"

definition emit :: "event \<Rightarrow> state \<Rightarrow> state" where
  "emit e s = s\<lparr>events := events s @ [e]\<rparr>"


definition log_info :: "string \<Rightarrow> state \<Rightarrow> state" where
  "log_info msg s = emit (LogInfo msg) s"

definition log_error :: "string \<Rightarrow> state \<Rightarrow> state" where
  "log_error msg s = emit (LogError msg) s"

definition log_always :: "string \<Rightarrow> state \<Rightarrow> state" where
  "log_always msg s = emit (LogAlways msg) s"

section \<open>Connection manager\<close>

text \<open>
  \<^verbatim>\<open>
  def start_server(self):
      if not self.server_sock:
          try:
              self.keepalive_timer = HANDSHAKE_TIMEOUT_S
              self.server_sock = socket.socket(socket.AF_INET, socket.SOCK_STREAM)
              self.server_sock.settimeout(SOCKET_TIMEOUT)
              self.server_sock.bind(('', BLENDER_PORT))
              self.server_sock.listen(5)
              self.server_sockets = [self.server_sock]
              self.is_listening = True
              utils.log_info(f"Listening on TCP *:{BLENDER_PORT}")
              self.listening.emit()
              self.changed.emit()
          except Exception as e:
              self.server_sock = None
              self.server_sockets = []
              self.is_listening = True
              utils.log_error(f"Unable to start server on TCP *:{BLENDER_PORT}", e)
  \<close>
  What the operating system answers is an argument: which of the three calls fails, if
  any, and the descriptor \<open>fd\<close> of the new socket. A socket that was created and then
  dropped by the handler is never entered into \<open>net\<close>.
\<close>

datatype listen_outcome = SocketFails | BindFails | ListenFails | ListenOk

definition start_server :: "listen_outcome \<Rightarrow> nat \<Rightarrow> state \<Rightarrow> state" where
  "start_server outcome fd s =
     (if server_sock s = None then
        (let s1 = s\<lparr>keepalive_timer := HANDSHAKE_TIMEOUT_S\<rparr>
         in case outcome of
              ListenOk \<Rightarrow>
                emit SigChanged (emit SigListening (log_info ''Listening on TCP *:9334''
                  (s1\<lparr>server_sock := Some fd,
                      server_sockets := [fd],
                      is_listening := True,
                      net := (net s1)(fd \<mapsto>
                        \<lparr>inbuf = [], outbuf = [], cond = SockOpen, backlog = []\<rparr>)\<rparr>)))
            | _ \<Rightarrow>
                log_error ''Unable to start server on TCP *:9334''
                  (s1\<lparr>server_sock := None, server_sockets := [], is_listening := True\<rparr>))
      else s)"

text \<open>
  \<^verbatim>\<open>
  def stop_server(self):
      if self.server_sock:
          utils.log_info(f"Closing Server Socket")
          try:
              self.server_sock.shutdown()
              self.server_sock.close()
          except:
              pass
      self.is_listening = False
      self.server_sock = None
      self.server_sockets = []
      self.server_stopped.emit()
      self.changed.emit()
  \<close>
  \<open>socket.shutdown\<close> takes one argument, so the call without one raises TypeError, the
  bare \<open>except\<close> swallows it and \<open>close\<close> is not reached: the descriptor stays as it is
  in \<open>net\<close>. The same holds for \<open>stop_client\<close>.
\<close>

definition stop_server :: "state \<Rightarrow> state" where
  "stop_server s =
     (let s1 = (if server_sock s \<noteq> None then log_info ''Closing Server Socket'' s else s);
          s2 = s1\<lparr>is_listening := False, server_sock := None, server_sockets := []\<rparr>
      in emit SigChanged (emit SigServerStopped s2))"

text \<open>
  \<^verbatim>\<open>
  def stop_timer(self):
      if self.timer:
          try:
              bpy.app.timers.unregister(self.loop)
          except:
              pass
          self.timer = False
          utils.log_info(f"Service timer stopped")
  \<close>
\<close>

definition stop_timer :: "state \<Rightarrow> state" where
  "stop_timer s =
     (if timer s then log_info ''Service timer stopped'' (s\<lparr>timer := False\<rparr>) else s)"

text \<open>
  \<^verbatim>\<open>
  def stop_client(self):
      if self.client_sock:
          utils.log_info(f"Closing Client Socket")
          try:
              self.client_sock.shutdown()
              self.client_sock.close()
          except:
              pass
      self.is_connected = False
      self.is_connecting = False
      self.client_sock = None
      self.client_sockets = []
      if self.listening:
          self.keepalive_timer = HANDSHAKE_TIMEOUT_S
      self.client_stopped.emit()
      self.changed.emit()
  \<close>
  \<open>self.listening\<close> is the \<open>Signal\<close> object, which is always true.
\<close>

definition stop_client :: "state \<Rightarrow> state" where
  "stop_client s =
     (let s1 = (if client_sock s \<noteq> None then log_info ''Closing Client Socket'' s else s);
          s2 = s1\<lparr>is_connected := False,
                  is_connecting := False,
                  client_sock := None,
                  client_sockets := [],
                  keepalive_timer := HANDSHAKE_TIMEOUT_S\<rparr>
      in emit SigChanged (emit SigClientStopped s2))"

text \<open>
  \<^verbatim>\<open>
  def has_client_sock(self):
      if self.client_sock and (self.is_connected or self.is_connecting):
          return True
      else:
          return False
  \<close>
\<close>

definition has_client_sock :: "state \<Rightarrow> bool" where
  "has_client_sock s =
     (if client_sock s \<noteq> None \<and> (is_connected s \<or> is_connecting s) then True else False)"

text \<open>
  \<^verbatim>\<open>
  def service_lost(self):
      self.lost_connection.emit()
      self.stop_timer()
      self.stop_client()
      self.stop_server()
  \<close>
\<close>

definition service_lost :: "state \<Rightarrow> state" where
  "service_lost s = stop_server (stop_client (stop_timer (emit SigLostConnection s)))"

text \<open>\<open>struct.pack("!II", a, b)\<close>\<close>

definition pack_u32_u32 :: "nat \<Rightarrow> nat \<Rightarrow> exn + byte list" where
  "pack_u32_u32 a b =
     (case pack_u32 a of
        Inl e \<Rightarrow> Inl e
      | Inr x \<Rightarrow> (case pack_u32 b of Inl e \<Rightarrow> Inl e | Inr y \<Rightarrow> Inr (x @ y)))"

text \<open>\<open>self.client_sock.sendall(data)\<close>; AttributeError when \<open>client_sock\<close> is \<open>None\<close>.\<close>

definition client_sendall :: "byte list \<Rightarrow> state \<Rightarrow> exn + state" where
  "client_sendall bs s =
     (case client_sock s of
        None \<Rightarrow> Inl AttributeError
      | Some fd \<Rightarrow>
          (case net s fd of
             None \<Rightarrow> Inl OSError
           | Some k \<Rightarrow>
               (case sock_sendall bs k of
                  Inl e \<Rightarrow> Inl e
                | Inr k' \<Rightarrow> Inr (s\<lparr>net := (net s)(fd \<mapsto> k')\<rparr>))))"

text \<open>
  \<^verbatim>\<open>
  def send(self, op_code, binary_data = None):
      if self.client_sock and (self.is_connected or self.is_connecting):
          try:
              data_length = len(binary_data) if binary_data else 0
              header = struct.pack("!II", op_code, data_length)
              data = bytearray()
              data.extend(header)
              if binary_data:
                  data.extend(binary_data)
              self.client_sock.sendall(data)
              self.ping_timer = PING_INTERVAL_S
              self.sent.emit()
          except Exception as e:
              utils.log_error("Client socket send failed!", e)
              self.service_lost()
  \<close>
\<close>

definition send :: "nat \<Rightarrow> byte list option \<Rightarrow> state \<Rightarrow> state" where
  "send op_code binary_data s =
     (if client_sock s \<noteq> None \<and> (is_connected s \<or> is_connecting s) then
        (let body = (case binary_data of None \<Rightarrow> [] | Some b \<Rightarrow> b);
             data_length = length body;
             failed = service_lost (log_error ''Client socket send failed!'' s)
         in case pack_u32_u32 op_code data_length of
              Inl e \<Rightarrow> failed
            | Inr header \<Rightarrow>
                (case client_sendall (header @ body) s of
                   Inl e \<Rightarrow> failed
                 | Inr s1 \<Rightarrow> emit SigSent (s1\<lparr>ping_timer := PING_INTERVAL_S\<rparr>)))
      else s)"

text \<open>
  \<^verbatim>\<open>
  def service_disconnect(self):
      self.send(OpCodes.DISCONNECT)
      if CLIENT_ONLY:
          self.stop_timer()
      self.stop_client()

  def service_stop(self):
      self.send(OpCodes.STOP)
      self.stop_timer()
      self.stop_client()
      self.stop_server()
  \<close>
\<close>

definition service_disconnect :: "state \<Rightarrow> state" where
  "service_disconnect s =
     (let s1 = send DISCONNECT None s;
          s2 = (if CLIENT_ONLY then stop_timer s1 else s1)
      in stop_client s2)"

definition service_stop :: "state \<Rightarrow> state" where
  "service_stop s = stop_server (stop_client (stop_timer (send STOP None s)))"

text \<open>
  \<^verbatim>\<open>
  def check_service(self):
      global LINK_SERVICE
      global LINK_DATA
      if not LINK_SERVICE or not LINK_DATA:
          utils.log_error("Datalink service data lost. Due to script reload?")
          utils.log_error("Connection is maintained but actor data has been reset.")
          LINK_SERVICE = self
          LINK_DATA = self.link_data
          LINK_DATA.reset()
      return True
  \<close>
  \<open>LINK_DATA\<close> is bound to a \<open>LinkData\<close> object when the module is loaded and an
  object of that class is always true, so the test is the test of \<open>LINK_SERVICE\<close>.
\<close>

definition check_service :: "state \<Rightarrow> bool \<times> state" where
  "check_service s =
     (if \<not> link_service_bound s then
        (let s1 = log_error ''Datalink service data lost. Due to script reload?'' s;
             s2 = log_error ''Connection is maintained but actor data has been reset.'' s1
         in (True, s2\<lparr>link_service_bound := True, link_data := reset (link_data s2)\<rparr>))
      else (True, s))"

text \<open>
  \<^verbatim>\<open>
  def write_sequence_actions(actor: LinkActor):
      if actor.cache:
          ...   # new fcurves on the rig action and the shape key actions, filled
                # from the cached curves
          actor.clear_cache()
  \<close>
  Filling the animation curves is recorded as the event \<open>WroteActions\<close> for the actor.
\<close>

definition write_sequence_actions :: "nat \<Rightarrow> state \<Rightarrow> state" where
  "write_sequence_actions actor s =
     (if cache (actor_objs s actor) \<noteq> None then
        (let s1 = emit (WroteActions actor) s
         in s1\<lparr>actor_objs := (actor_objs s1)(actor := (actor_objs s1 actor)\<lparr>cache := None\<rparr>)\<rparr>)
      else s)"


section \<open>Opcode dispatcher\<close>

definition ascii_bytes :: "string \<Rightarrow> byte list" where
  "ascii_bytes t = map (\<lambda>c. of_nat (of_char c)) t"

text \<open>
  \<open>decode_to_json(data)\<close> is \<open>json.loads(data.decode("utf-8"))\<close>; with \<open>data\<close>
  being \<open>None\<close> (a message without payload) the attribute lookup \<open>data.decode\<close>
  raises AttributeError.
\<close>

definition decode_to_json :: "env \<Rightarrow> byte list option \<Rightarrow> exn + json" where
  "decode_to_json E data =
     (case data of
        None \<Rightarrow> Inl AttributeError
      | Some d \<Rightarrow>
          (case utf8_decode d of
             None \<Rightarrow> Inl UnicodeDecodeError
           | Some text \<Rightarrow> json_loads E text))"

text \<open>
  \<^verbatim>\<open>
  def send_hello(self):
      self.local_app = "Blender"
      self.local_version = bpy.app.version_string
      self.local_path = get_link_data_path()
      json_data = { "Application": ..., "Version": ..., "Path": ... }
      self.send(OpCodes.HELLO, encode_from_json(json_data))
  \<close>
\<close>

definition send_hello :: "env \<Rightarrow> state \<Rightarrow> state" where
  "send_hello E s =
     send HELLO (Some (hello_payload E))
       (s\<lparr>local_app := Some ''Blender'',
          local_version := Some (version_string E),
          local_path := Some (link_data_path E)\<rparr>)"

text \<open>
  \<^verbatim>\<open>
  def on_connected(self):
      self.send_notify("Connected")

  def send_notify(self, message):
      global LINK_SERVICE
      notify_json = { "message": message }
      LINK_SERVICE.send(OpCodes.NOTIFY, encode_from_json(notify_json))
  \<close>
  \<open>LINK_SERVICE.send\<close> raises AttributeError while the global is \<open>None\<close>.
\<close>

definition on_connected :: "state \<Rightarrow> exn option \<times> state" where
  \<open>on_connected s =
     (if link_service_bound s then
        (None, send NOTIFY (Some (ascii_bytes ''{"message": "Connected"}'')) s)
      else (Some AttributeError, s))\<close>

text \<open>
  \<^verbatim>\<open>
  def service_initialize(self):
      if self.is_connecting:
          self.is_connecting = False
          self.is_connected = True
          self.on_connected()
          self.connected.emit()
          self.changed.emit()
  \<close>
\<close>

definition service_initialize :: "state \<Rightarrow> exn option \<times> state" where
  "service_initialize s =
     (if is_connecting s then
        (case on_connected (s\<lparr>is_connecting := False, is_connected := True\<rparr>) of
           (Some e, s1) \<Rightarrow> (Some e, s1)
         | (None, s1) \<Rightarrow> (None, emit SigChanged (emit SigConnected s1)))
      else (None, s))"

text \<open>
  The HELLO branch of \<open>parse\<close> after \<open>service_initialize\<close>:
  \<^verbatim>\<open>
  if data:
      json_data = decode_to_json(data)
      self.remote_app = json_data["Application"]
      self.remote_version = json_data["Version"]
      self.remote_path = json_data["Path"]
      self.remote_exe = json_data["Exe"]
      utils.log_always(f"Connected to: {self.remote_app} {self.remote_version}")
      utils.log_always(f"Using file path: {self.remote_path}")
      utils.log_always(f"Using exe path: {self.remote_exe}")
  \<close>
\<close>

definition read_hello :: "env \<Rightarrow> byte list option \<Rightarrow> state \<Rightarrow> exn option \<times> state" where
  "read_hello E data s =
     (if data = None \<or> data = Some [] then (None, s)
      else
        (case decode_to_json E data of
           Inl e \<Rightarrow> (Some e, s)
         | Inr json_data \<Rightarrow>
             (case json_getitem json_data ''Application'' of
                Inl e \<Rightarrow> (Some e, s)
              | Inr a \<Rightarrow>
                  (let s1 = s\<lparr>remote_app := Some a\<rparr>
                   in case json_getitem json_data ''Version'' of
                        Inl e \<Rightarrow> (Some e, s1)
                      | Inr v \<Rightarrow>
                          (let s2 = s1\<lparr>remote_version := Some v\<rparr>
                           in case json_getitem json_data ''Path'' of
                                Inl e \<Rightarrow> (Some e, s2)
                              | Inr p \<Rightarrow>
                                  (let s3 = s2\<lparr>remote_path := Some p\<rparr>
                                   in case json_getitem json_data ''Exe'' of
                                        Inl e \<Rightarrow> (Some e, s3)
                                      | Inr x \<Rightarrow>
                                          (None,
                                           log_always ''Using exe path''
                                             (log_always ''Using file path''
                                               (log_always ''Connected to''
                                                 (s3\<lparr>remote_exe := Some x\<rparr>))))))))))"

text \<open>
  \<^verbatim>\<open>
  def receive_notify(self, data):
      notify_json = decode_to_json(data)
      update_link_status(notify_json["message"])
  \<close>
  The rest of \<open>update_link_status\<close> (a scene property and a redraw) is the scene
  adapter's: the handler of \<open>NOTIFY\<close> in \<open>env\<close>, called with the payload.
\<close>

definition receive_notify :: "env \<Rightarrow> byte list option \<Rightarrow> state \<Rightarrow> exn option \<times> state" where
  "receive_notify E data s =
     (case decode_to_json E data of
        Inl e \<Rightarrow> (Some e, s)
      | Inr notify_json \<Rightarrow>
          (case json_getitem notify_json ''message'' of
             Inl e \<Rightarrow> (Some e, s)
           | Inr message \<Rightarrow> handlers E NOTIFY data s))"

text \<open>
  The opcodes that \<open>parse\<close> hands to a handler of the scene adapter, in the order of
  its \<open>elif\<close> chain.
\<close>

definition scene_opcodes :: "nat list" where
  "scene_opcodes =
     [TEMPLATE, POSE, POSE_FRAME, MORPH, MORPH_UPDATE, CHARACTER, PROP_opcode,
      CHARACTER_UPDATE, RIGIFY, SEQUENCE, SEQUENCE_FRAME, SEQUENCE_END, LIGHTS, CAMERA_SYNC]"

text \<open>
  \<^verbatim>\<open>
  def parse(self, op_code, data):
      self.keepalive_timer = KEEPALIVE_TIMEOUT_S
      if op_code == OpCodes.HELLO:
          utils.log_info(f"Hello Received")
          self.service_initialize()
          if data: ...
      elif op_code == OpCodes.PING:
          utils.log_info(f"Ping Received")
      elif op_code == OpCodes.STOP:
          utils.log_info(f"Termination Received")
          self.service_stop()
      elif op_code == OpCodes.DISCONNECT:
          utils.log_info(f"Disconnection Received")
          self.service_disconnect()
      elif op_code == OpCodes.NOTIFY:
          self.receive_notify(data)
      elif op_code == OpCodes.TEMPLATE:
          self.receive_character_template(data)
      ...
      elif op_code == OpCodes.CAMERA_SYNC:
          self.receive_camera_sync(data)
  \<close>
  There is no \<open>try\<close> in \<open>parse\<close>: what a branch raises leaves \<open>parse\<close>.
  An opcode outside the chain does nothing more than reset the keepalive timer.
\<close>

definition parse :: "env \<Rightarrow> nat \<Rightarrow> byte list option \<Rightarrow> state \<Rightarrow> exn option \<times> state" where
  "parse E op_code data s =
     (let s0 = s\<lparr>keepalive_timer := KEEPALIVE_TIMEOUT_S\<rparr>
      in if op_code = HELLO then
           (case service_initialize (log_info ''Hello Received'' s0) of
              (Some e, s1) \<Rightarrow> (Some e, s1)
            | (None, s1) \<Rightarrow> read_hello E data s1)
         else if op_code = PING then (None, log_info ''Ping Received'' s0)
         else if op_code = STOP then
           (None, service_stop (log_info ''Termination Received'' s0))
         else if op_code = DISCONNECT then
           (None, service_disconnect (log_info ''Disconnection Received'' s0))
         else if op_code = NOTIFY then receive_notify E data s0
         else if op_code \<in> set scene_opcodes then handlers E op_code data s0
         else (None, s0))"

section \<open>Receiving\<close>

text \<open>\<open>self.client_sock.recv(n)\<close>; AttributeError when \<open>client_sock\<close> is \<open>None\<close>.\<close>

definition client_recv :: "nat \<Rightarrow> state \<Rightarrow> exn + (byte list \<times> state)" where
  "client_recv n s =
     (case client_sock s of
        None \<Rightarrow> Inl AttributeError
      | Some fd \<Rightarrow>
          (case net s fd of
             None \<Rightarrow> Inl OSError
           | Some k \<Rightarrow>
               (case sock_recv n k of
                  Inl e \<Rightarrow> Inl e
                | Inr (bs, k') \<Rightarrow> Inr (bs, s\<lparr>net := (net s)(fd \<mapsto> k')\<rparr>))))"

text \<open>
  The loops of \<open>recv\<close> need not end (a peer that closes in the middle of a payload makes
  \<open>recv\<close> return the empty bytes object for ever), so the functions take fuel: one unit
  per iteration, \<open>None\<close> when it runs out.

  The payload loop:
  \<^verbatim>\<open>
  while size > 0:
      chunk_size = min(size, MAX_CHUNK_SIZE)
      try:
          chunk = self.client_sock.recv(chunk_size)
      except Exception as e:
          utils.log_error("Client socket receive:chunk_recv failed!", e)
          self.service_lost()
      data.extend(chunk)
      size -= len(chunk)
  \<close>
  After the handler the loop goes on with the \<open>chunk\<close> of an earlier iteration, or with
  UnboundLocalError when there is none: \<open>chunk\<close> is the local variable, \<open>None\<close> while
  unbound. \<open>sz\<close> is the variable \<open>size\<close>; it is only compared with 0, so the
  truncated subtraction of \<open>nat\<close> stands for the integer one.
\<close>

fun recv_chunks ::
  "nat \<Rightarrow> nat \<Rightarrow> byte list \<Rightarrow> byte list option \<Rightarrow> state
     \<Rightarrow> ((exn + (byte list \<times> byte list option)) \<times> state) option" where
  "recv_chunks 0 sz data chunk s = None"
| "recv_chunks (Suc fuel) sz data chunk s =
     (if sz > 0 then
        (let chunk_size = min sz MAX_CHUNK_SIZE
         in case (case client_recv chunk_size s of
                    Inr (c, s1) \<Rightarrow> (Some c, s1)
                  | Inl e \<Rightarrow>
                      (chunk, service_lost (log_error ''Client socket receive:chunk_recv failed!'' s))) of
              (None, s2) \<Rightarrow> Some (Inl UnboundLocalError, s2)
            | (Some c, s2) \<Rightarrow> recv_chunks fuel (sz - length c) (data @ c) (Some c) s2)
      else Some (Inr (data, chunk), s))"

text \<open>
  Reading the payload that a header announces:
  \<^verbatim>\<open>
  data = None
  if size > 0:
      data = bytearray()
      while size > 0: ...
  \<close>
\<close>

definition recv_payload ::
  "nat \<Rightarrow> nat \<Rightarrow> byte list option \<Rightarrow> state
     \<Rightarrow> ((exn + (byte list option \<times> byte list option)) \<times> state) option" where
  "recv_payload fuel sz chunk s =
     (if sz > 0 then
        (case recv_chunks fuel sz [] chunk s of
           None \<Rightarrow> None
         | Some (Inl e, s1) \<Rightarrow> Some (Inl e, s1)
         | Some (Inr (data, chunk'), s1) \<Rightarrow> Some (Inr (Some data, chunk'), s1))
      else Some (Inr (None, chunk), s))"

text \<open>
  The first part of the body of the outer loop, up to \<open>count += 1\<close>:
  \<^verbatim>\<open>
  op_code = None
  try:
      header = self.client_sock.recv(8)
  except Exception as e:
      utils.log_error("Client socket receive:recv failed!", e)
      self.service_lost()
  if header == 0:
      print("Socket closed by client")
      self.service_lost()
      return
  if header and len(header) == 8:
      op_code, size = struct.unpack("!II", header)
      data = None
      if size > 0: ...
      self.parse(op_code, data)
      self.received.emit(op_code, data)
      count += 1
  \<close>
  The result is \<open>Returned\<close> when the body executes \<open>return\<close>, and otherwise holds
  the local variables the rest of the loop reads: \<open>header\<close>, \<open>chunk\<close>, \<open>count\<close>
  and \<open>op_code\<close>.
\<close>

datatype step =
    Returned
  | Locals "byte list option" "byte list option" nat "nat option"

text \<open>
  \<open>header == 0\<close> compares the bytes object that \<open>recv\<close> returned with the integer
  0. Python's \<open>==\<close> between a bytes object and an integer is false, whatever the
  bytes are (the empty bytes object included).
\<close>

definition bytes_eq_int :: "byte list \<Rightarrow> int \<Rightarrow> bool" where
  "bytes_eq_int b n = False"

definition recv_message ::
  "nat \<Rightarrow> env \<Rightarrow> byte list option \<Rightarrow> byte list option \<Rightarrow> nat \<Rightarrow> state
     \<Rightarrow> ((exn + step) \<times> state) option" where
  "recv_message fuel E header chunk count s =
     (case (case client_recv 8 s of
              Inr (h, s1) \<Rightarrow> (Some h, s1)
            | Inl e \<Rightarrow> (header, service_lost (log_error ''Client socket receive:recv failed!'' s))) of
        (None, s2) \<Rightarrow> Some (Inl UnboundLocalError, s2)
      | (Some h, s2) \<Rightarrow>
          (if bytes_eq_int h 0 then
             Some (Inr Returned, service_lost (emit (Print ''Socket closed by client'') s2))
           else if h \<noteq> [] \<and> length h = 8 then
             (let op_code = be_u32 (take 4 h);
                  sz = be_u32 (drop 4 h)
              in case recv_payload fuel sz chunk s2 of
                   None \<Rightarrow> None
                 | Some (Inl e, s3) \<Rightarrow> Some (Inl e, s3)
                 | Some (Inr (data, chunk'), s3) \<Rightarrow>
                     (case parse E op_code data s3 of
                        (Some e, s4) \<Rightarrow> Some (Inl e, s4)
                      | (None, s4) \<Rightarrow>
                          Some (Inr (Locals (Some h) chunk' (count + 1) (Some op_code)),
                                emit (SigReceived op_code data) s4)))
           else Some (Inr (Locals (Some h) chunk count None), s2)))"

text \<open>
  The outer loop, with the rest of its body:
  \<^verbatim>\<open>
  while r:
      ...
      self.is_data = False
      # parse may have received a disconnect notice
      if not self.has_client_sock():
          return
      try:
          r,w,x = select.select(self.client_sockets, self.empty_sockets, self.empty_sockets, 0)
      except Exception as e:
          utils.log_error("Client socket receive:re-select failed!", e)
          self.service_lost()
      if r:
          self.is_data = True
          if count >= MAX_RECEIVE or op_code == OpCodes.NOTIFY:
              return
  \<close>
\<close>

fun recv_loop ::
  "nat \<Rightarrow> env \<Rightarrow> nat list \<Rightarrow> byte list option \<Rightarrow> byte list option \<Rightarrow> nat \<Rightarrow> state
     \<Rightarrow> (exn option \<times> state) option" where
  "recv_loop 0 E r header chunk count s = None"
| "recv_loop (Suc fuel) E r header chunk count s =
     (if r = [] then Some (None, s)
      else
        (case recv_message fuel E header chunk count s of
           None \<Rightarrow> None
         | Some (Inl e, s1) \<Rightarrow> Some (Some e, s1)
         | Some (Inr Returned, s1) \<Rightarrow> Some (None, s1)
         | Some (Inr (Locals header' chunk' count' op_code), s1) \<Rightarrow>
             (let s2 = s1\<lparr>is_data := False\<rparr>
              in if \<not> has_client_sock s2 then Some (None, s2)
                 else
                   (case (case select_readable (net s2) (client_sockets s2) of
                            Inr r' \<Rightarrow> (r', s2)
                          | Inl e \<Rightarrow>
                              (r, service_lost
                                    (log_error ''Client socket receive:re-select failed!'' s2))) of
                      (r', s3) \<Rightarrow>
                        (if r' \<noteq> [] then
                           (let s4 = s3\<lparr>is_data := True\<rparr>
                            in if count' \<ge> MAX_RECEIVE \<or> op_code = Some NOTIFY then Some (None, s4)
                               else recv_loop fuel E r' header' chunk' count' s4)
                         else recv_loop fuel E r' header' chunk' count' s3)))))"

text \<open>
  \<^verbatim>\<open>
  def recv(self):
      self.is_data = False
      if self.has_client_sock():
          try:
              r,w,x = select.select(self.client_sockets, self.empty_sockets, self.empty_sockets, 0)
          except Exception as e:
              utils.log_error("Client socket receive:select failed!", e)
              self.service_lost()
          count = 0
          while r: ...
  \<close>
  When the first \<open>select\<close> raises, \<open>r\<close> is unbound at the test of the loop.
\<close>

definition recv :: "nat \<Rightarrow> env \<Rightarrow> state \<Rightarrow> (exn option \<times> state) option" where
  "recv fuel E s =
     (let s0 = s\<lparr>is_data := False\<rparr>
      in if has_client_sock s0 then
           (case select_readable (net s0) (client_sockets s0) of
              Inl e \<Rightarrow>
                Some (Some UnboundLocalError,
                      service_lost (log_error ''Client socket receive:select failed!'' s0))
            | Inr r \<Rightarrow> recv_loop fuel E r None None 0 s0)
         else Some (None, s0))"


section \<open>Accepting and the scheduler tick\<close>

text \<open>\<open>self.server_sock.accept()\<close>: the first waiting connection, socket.timeout without one.\<close>

definition server_accept :: "state \<Rightarrow> exn + ((nat \<times> string \<times> nat) \<times> state)" where
  "server_accept s =
     (case server_sock s of
        None \<Rightarrow> Inl AttributeError
      | Some fd \<Rightarrow>
          (case net s fd of
             None \<Rightarrow> Inl OSError
           | Some k \<Rightarrow>
               (case backlog k of
                  [] \<Rightarrow> Inl OSError
                | c # cs \<Rightarrow> Inr (c, s\<lparr>net := (net s)(fd \<mapsto> k\<lparr>backlog := cs\<rparr>)\<rparr>))))"

text \<open>
  \<^verbatim>\<open>
  def accept(self):
      if self.server_sock and self.is_listening:
          r,w,x = select.select(self.server_sockets, self.empty_sockets, self.empty_sockets, 0)
          while r:
              try:
                  sock, address = self.server_sock.accept()
              except Exception as e:
                  utils.log_error("Server socket accept failed!", e)
                  self.service_lost()
                  return
              self.client_sock = sock
              self.client_sockets = [sock]
              self.client_ip = address[0]
              self.client_port = address[1]
              self.is_connected = False
              self.is_connecting = True
              self.keepalive_timer = KEEPALIVE_TIMEOUT_S
              self.ping_timer = PING_INTERVAL_S
              utils.log_info(f"Incoming connection received from: {address[0]}:{address[1]}")
              self.send_hello()
              self.accepted.emit(self.client_ip, self.client_port)
              self.changed.emit()
              r,w,x = select.select(self.server_sockets, self.empty_sockets, self.empty_sockets, 0)
  \<close>
  The two \<open>select\<close> calls are outside any \<open>try\<close>.
\<close>

fun accept_loop :: "nat \<Rightarrow> env \<Rightarrow> nat list \<Rightarrow> state \<Rightarrow> (exn option \<times> state) option" where
  "accept_loop 0 E r s = None"
| "accept_loop (Suc fuel) E r s =
     (if r = [] then Some (None, s)
      else
        (case server_accept s of
           Inl e \<Rightarrow> Some (None, service_lost (log_error ''Server socket accept failed!'' s))
         | Inr ((sock, ip, port), s1) \<Rightarrow>
             (let s2 = s1\<lparr>client_sock := Some sock,
                          client_sockets := [sock],
                          client_ip := ip,
                          client_port := port,
                          is_connected := False,
                          is_connecting := True,
                          keepalive_timer := KEEPALIVE_TIMEOUT_S,
                          ping_timer := PING_INTERVAL_S\<rparr>;
                  s3 = send_hello E (log_info ''Incoming connection received'' s2);
                  s4 = emit SigChanged (emit (SigAccepted (client_ip s3) (client_port s3)) s3)
              in case select_readable (net s4) (server_sockets s4) of
                   Inl e \<Rightarrow> Some (Some e, s4)
                 | Inr r' \<Rightarrow> accept_loop fuel E r' s4)))"

definition accept :: "nat \<Rightarrow> env \<Rightarrow> state \<Rightarrow> (exn option \<times> state) option" where
  "accept fuel E s =
     (if server_sock s \<noteq> None \<and> is_listening s then
        (case select_readable (net s) (server_sockets s) of
           Inl e \<Rightarrow> Some (Some e, s)
         | Inr r \<Rightarrow> accept_loop fuel E r s)
      else Some (None, s))"



section \<open>States and messages used in the statements\<close>

text \<open>The class attributes of \<open>LinkService\<close> and \<open>LinkData\<close> before anything has run.\<close>

definition LinkData_init :: LinkData where
  "LinkData_init =
     \<lparr>actors = [], pose_frame = 0, pose_actors = None, sequence_current_frame = 0,
      sequence_start_frame = 0, sequence_end_frame = 0, sequence_actors = None\<rparr>"

definition LinkActor_init :: LinkActor where
  "LinkActor_init =
     \<lparr>actor_name = ''Name'', link_id = ''1234567890'', bones = [], expressions = [],
      visemes = [], morphs = [], cache = None\<rparr>"

definition LinkService_init :: state where
  "LinkService_init =
     \<lparr>timer = False, server_sock = None, client_sock = None, server_sockets = [],
      client_sockets = [], client_ip = ''127.0.0.1'', client_port = BLENDER_PORT,
      is_listening = False, is_connected = False, is_connecting = False,
      ping_timer = 0, keepalive_timer = 0, time = 0, is_data = False, is_sequence = False,
      local_app = None, local_version = None, local_path = None,
      remote_app = None, remote_version = None, remote_path = None, remote_exe = None,
      link_data = LinkData_init, link_service_bound = True,
      actor_objs = (\<lambda>_. LinkActor_init), net = (\<lambda>_. None), events = []\<rparr>"

text \<open>
  A service connected to a peer over the socket with descriptor \<open>fd\<close>, the timer
  running, after \<open>try_start_client\<close> and the peer's HELLO.
\<close>

definition connected_to :: "nat \<Rightarrow> sock \<Rightarrow> state" where
  "connected_to fd k =
     LinkService_init\<lparr>timer := True, client_sock := Some fd, client_sockets := [fd],
                      is_connected := True, keepalive_timer := KEEPALIVE_TIMEOUT_S,
                      ping_timer := PING_INTERVAL_S, net := (\<lambda>_. None)(fd \<mapsto> k)\<rparr>"

text \<open>An environment whose JSON parser rejects everything and whose handlers do nothing.\<close>

definition quiet_env :: env where
  "quiet_env =
     \<lparr>json_loads = (\<lambda>_. Inl TypeError), handlers = (\<lambda>_ _ s. (None, s)),
      on_sequence = (\<lambda>s. (None, s)), version_string = ''4.0.0'', link_data_path = [],
      hello_payload = []\<rparr>"

text \<open>A message on the wire: the 8-byte header (opcode, payload length) and the payload.\<close>

record message =
  opcode :: nat
  payload :: "byte list"

definition frame :: "message \<Rightarrow> byte list" where
  "frame m =
     (case pack_u32_u32 (opcode m) (length (payload m)) of
        Inl e \<Rightarrow> []
      | Inr header \<Rightarrow> header @ payload m)"

definition well_formed :: "message \<Rightarrow> bool" where
  "well_formed m = (opcode m < 2 ^ 32 \<and> length (payload m) < 2 ^ 32)"


text \<open>
  \<open>data\<close> as \<open>recv\<close> hands it to \<open>parse\<close>: \<open>None\<close> for a message without
  payload, the payload otherwise.
\<close>

definition payload_arg :: "message \<Rightarrow> byte list option" where
  "payload_arg m = (if payload m = [] then None else Some (payload m))"

text \<open>The state once the frame of \<open>m\<close> has been read from the socket \<open>fd\<close>.\<close>

definition take_frame :: "nat \<Rightarrow> message \<Rightarrow> state \<Rightarrow> state" where
  "take_frame fd m s =
     (case net s fd of
        None \<Rightarrow> s
      | Some k \<Rightarrow> s\<lparr>net := (net s)(fd \<mapsto> k\<lparr>inbuf := drop (length (frame m)) (inbuf k)\<rparr>)\<rparr>)"

text \<open>
  What \<open>recv\<close> does with one complete message: \<open>self.parse(op_code, data)\<close> and then
  \<open>self.received.emit(op_code, data)\<close>.
\<close>

definition dispatch :: "env \<Rightarrow> nat \<Rightarrow> message \<Rightarrow> state \<Rightarrow> exn option \<times> state" where
  "dispatch E fd m s =
     (case parse E (opcode m) (payload_arg m) (take_frame fd m s) of
        (Some e, s1) \<Rightarrow> (Some e, s1)
      | (None, s1) \<Rightarrow> (None, emit (SigReceived (opcode m) (payload_arg m)) s1))"

text \<open>
  The peer socket \<open>fd\<close> is in place in \<open>s1\<close> as it was in \<open>s0\<close>: still the client
  socket of a connected or connecting service, with the same unread input and condition.
\<close>

definition undisturbed :: "nat \<Rightarrow> state \<Rightarrow> state \<Rightarrow> bool" where
  "undisturbed fd s0 s1 =
     (client_sock s1 = Some fd \<and> client_sockets s1 = [fd]
      \<and> (is_connected s1 \<or> is_connecting s1)
      \<and> map_option inbuf (net s1 fd) = map_option inbuf (net s0 fd)
      \<and> map_option cond (net s1 fd) = map_option cond (net s0 fd))"

text \<open>
  Dispatching the messages \<open>ms\<close> one after the other, each read from the socket \<open>fd\<close>,
  with more input waiting after each (\<open>is_data\<close> is set). \<open>None\<close> when a message
  raises or disturbs the peer socket.
\<close>

fun dispatch_all :: "env \<Rightarrow> nat \<Rightarrow> message list \<Rightarrow> state \<Rightarrow> state option" where
  "dispatch_all E fd [] s = Some s"
| "dispatch_all E fd (m # ms) s =
     (case dispatch E fd m s of
        (Some e, s1) \<Rightarrow> None
      | (None, s1) \<Rightarrow>
          (if undisturbed fd (take_frame fd m s) s1
           then dispatch_all E fd ms (s1\<lparr>is_data := True\<rparr>)
           else None))"

text \<open>The actors whose cached samples were written into animation curves, in order.\<close>

fun written_actors :: "event list \<Rightarrow> nat list" where
  "written_actors [] = []"
| "written_actors (WroteActions a # es) = a # written_actors es"
| "written_actors (e # es) = written_actors es"

text \<open>
  A service in the middle of receiving a sequence: connected over the socket 0, the
  actor 7 registered and taking part, its sample cache prepared for the frames 10 to 13.
\<close>

definition mid_session :: state where
  "mid_session =
     (connected_to 0 \<lparr>inbuf = [], outbuf = [], cond = SockOpen, backlog = []\<rparr>)
       \<lparr>is_sequence := True,
        link_data := LinkData_init\<lparr>actors := [7], sequence_start_frame := 10,
                                   sequence_end_frame := 13, sequence_actors := Some [7]\<rparr>,
        actor_objs := (\<lambda>_. LinkActor_init)
          (7 := LinkActor_init\<lparr>cache := Some \<lparr>cache_start = 10, cache_end = 13,
                                                 cache_curves = []\<rparr>\<rparr>)\<rparr>"

text \<open>The opcodes of the messages that \<open>recv\<close> has handed on, in order.\<close>

fun received_opcodes :: "event list \<Rightarrow> nat list" where
  "received_opcodes [] = []"
| "received_opcodes (SigReceived op_code data # es) = op_code # received_opcodes es"
| "received_opcodes (e # es) = received_opcodes es"

text \<open>A connected service with the frames of \<open>ms\<close> waiting unread on its socket \<open>fd\<close>.\<close>

definition queued :: "nat \<Rightarrow> message list \<Rightarrow> state" where
  "queued fd ms =
     connected_to fd \<lparr>inbuf = concat (map frame ms), outbuf = [], cond = SockOpen, backlog = []\<rparr>"

definition ping_message :: message where
  "ping_message = \<lparr>opcode = PING, payload = []\<rparr>"

definition stop_message :: message where
  "stop_message = \<lparr>opcode = STOP, payload = []\<rparr>"




section \<open>Wire codec: strings\<close>

lemmas OpCodes_defs =
  HELLO_def PING_def STOP_def DISCONNECT_def NOTIFY_def MORPH_def MORPH_UPDATE_def
  CHARACTER_def CHARACTER_UPDATE_def PROP_opcode_def RIGIFY_def TEMPLATE_def POSE_def
  POSE_FRAME_def SEQUENCE_def SEQUENCE_FRAME_def SEQUENCE_END_def LIGHTS_def
  CAMERA_SYNC_def

lemma be_u32_digits:
  fixes n :: nat
  shows "16777216 * (n div 16777216) + 65536 * (n div 65536 mod 256)
          + n div 256 mod 256 * 256 + n mod 256 = n"
proof -
  define a where "a = n div 16777216"
  define b where "b = n div 65536 mod 256"
  define c where "c = n div 256 mod 256"
  define d where "d = n mod 256"
  define q1 where "q1 = n div 256"
  define q2 where "q2 = n div 65536"
  have "q1 div 256 = q2" by (simp add: q1_def q2_def div_mult2_eq[symmetric])
  then have 2: "q1 = q2 * 256 + c"
    using div_mult_mod_eq[of q1 256] by (simp add: c_def q1_def)
  have "q2 div 256 = a" by (simp add: a_def q2_def div_mult2_eq[symmetric])
  then have 3: "q2 = a * 256 + b"
    using div_mult_mod_eq[of q2 256] by (simp add: b_def q2_def)
  have 1: "n = q1 * 256 + d"
    by (simp add: q1_def d_def)
  have "16777216 * a + 65536 * b + c * 256 + d = n"
    using 1 2 3 by simp
  then show ?thesis by (simp add: a_def b_def c_def d_def)
qed

lemma be_u32_pack:
  assumes "n < 2 ^ 32"
  shows "be_u32 [of_nat (n div 16777216), of_nat ((n div 65536) mod 256),
                 of_nat ((n div 256) mod 256), of_nat (n mod 256)] = n"
proof -
  have "n div 16777216 < 256" using assms by simp
  then have hi: "n div 16777216 mod 256 = n div 16777216" by simp
  from be_u32_digits[of n] show ?thesis
    unfolding be_u32_def by (simp add: unat_of_nat hi)
qed

lemma pack_u32_length: "pack_u32 n = Inr p \<Longrightarrow> length p = 4"
  by (auto simp: pack_u32_def split: if_splits)

lemma unpack_from_u32_pack:
  assumes "pack_u32 n = Inr p"
  shows "unpack_from_u32 (p @ rest) 0 = Inr n"
proof -
  from assms have n: "n < 2 ^ 32"
    and p: "p = [of_nat (n div 16777216), of_nat ((n div 65536) mod 256),
                 of_nat ((n div 256) mod 256), of_nat (n mod 256)]"
    by (auto simp: pack_u32_def split: if_splits)
  show ?thesis
    unfolding unpack_from_u32_def p using be_u32_pack[OF n] by simp
qed

lemma utf8_ascii_roundtrip:
  "\<forall>c\<in>set s. c < 0x80 \<Longrightarrow>
     utf8_encode s = Some (map of_nat s) \<and> utf8_decode (map of_nat s) = Some s"
  by (induction s) (auto simp: utf8_encode_cp_def unat_of_nat)

text \<open>
  Where the code does round-trip: on strings of ASCII characters, whose number of code
  points is their number of bytes.
\<close>

lemma pack_unpack_ascii:
  assumes "\<forall>c\<in>set s. c < 0x80" and "length s < 2 ^ 32"
  shows "\<exists>b. pack_string s = Inr b \<and> unpack_string b 0 = Inr (4 + length s, s)"
proof -
  obtain p where p: "pack_u32 (length s) = Inr p"
    using assms(2) by (auto simp: pack_u32_def)
  have lp: "length p = 4" using p by (rule pack_u32_length)
  have enc: "utf8_encode s = Some (map of_nat s)"
    and dec: "utf8_decode (map of_nat s) = Some s"
    using utf8_ascii_roundtrip[OF assms(1)] by auto
  have "pack_string s = Inr (p @ map of_nat s)"
    by (simp add: pack_string_def p enc)
  moreover have "unpack_string (p @ map of_nat s) 0 = Inr (4 + length s, s)"
    using unpack_from_u32_pack[OF p, of "map of_nat s"]
    by (simp add: unpack_string_def lp dec)
  ultimately show ?thesis by blast
qed

lemma is_cont_A9: "is_cont (0xA9 :: byte)"
  by (simp add: is_cont_def)

lemma cont_bits_A9: "cont_bits (0xA9 :: byte) = 41"
  by (simp add: cont_bits_def)

text \<open>
  C6. The claim: unpacking the result of packing any string returns the string, with
  the offset after it. The code at the one-character string U+00E9: its UTF-8 form has
  two bytes, \<open>pack_string\<close> writes the prefix 1 (the number of code points), and
  \<open>unpack_string\<close> then decodes the first byte alone, which raises UnicodeDecodeError.
  With a second character after it (U+00E9, a) the prefix is 2 and the unpacked
  string is the first character only.
\<close>

theorem pack_string_prefix_counts_code_points:
  "pack_string [0xE9] = Inr [0, 0, 0, 1, 0xC3, 0xA9]
   \<and> unpack_string [0, 0, 0, 1, 0xC3, 0xA9] 0 = Inl UnicodeDecodeError
   \<and> pack_string [0xE9, 0x61] = Inr [0, 0, 0, 2, 0xC3, 0xA9, 0x61]
   \<and> unpack_string [0, 0, 0, 2, 0xC3, 0xA9, 0x61] 0 = Inr (6, [0xE9])"
proof -
  have a: "pack_string [0xE9] = Inr [0, 0, 0, 1, 0xC3, 0xA9]"
    by (simp add: pack_string_def pack_u32_def utf8_encode_cp_def)
  have b: "unpack_string [0, 0, 0, 1, 0xC3, 0xA9] 0 = Inl UnicodeDecodeError"
    by (simp add: unpack_string_def unpack_from_u32_def be_u32_def)
  have c: "pack_string [0xE9, 0x61] = Inr [0, 0, 0, 2, 0xC3, 0xA9, 0x61]"
    by (simp add: pack_string_def pack_u32_def utf8_encode_cp_def)
  have d: "unpack_string [0, 0, 0, 2, 0xC3, 0xA9, 0x61] 0 = Inr (6, [0xE9])"
    by (simp add: unpack_string_def unpack_from_u32_def be_u32_def is_cont_A9 cont_bits_A9)
  from a b c d show ?thesis by blast
qed

text \<open>
  C7. The claim: with fewer bytes left than the prefix announces, \<open>unpack_string\<close>
  fails with TruncatedData. The code at a buffer that announces 5 bytes and holds 2:
  it returns the 2 bytes as the string, and 9 as the new offset.
\<close>

theorem unpack_string_truncated_counterexample:
  "unpack_string [0, 0, 0, 5, 0x61, 0x62] 0 = Inr (9, [0x61, 0x62])"
  by (simp add: unpack_string_def unpack_from_u32_def be_u32_def)

text \<open>
  C7, as amended. When the length field can be read and fewer bytes than it announces
  are left, \<open>unpack_string\<close> decodes the bytes that are left: it returns them as the
  string, with the offset moved by the announced length, and fails only if they are not
  UTF-8.
\<close>

theorem unpack_string_truncated:
  assumes "unpack_from_u32 buffer offset = Inr len"
      and "length buffer < offset + 4 + len"
  shows "unpack_string buffer offset =
           (case utf8_decode (drop (offset + 4) buffer) of
              None \<Rightarrow> Inl UnicodeDecodeError
            | Some s \<Rightarrow> Inr (offset + 4 + len, s))"
  using assms by (simp add: unpack_string_def Let_def)

text \<open>The amended C7 at the buffer that announces 5 bytes and holds 2.\<close>

theorem unpack_string_truncated_witness:
  "unpack_from_u32 [0, 0, 0, 5, 0x61, 0x62] 0 = Inr 5
   \<and> length [0, 0, 0, 5, 0x61, 0x62 :: byte] < 0 + 4 + 5
   \<and> unpack_string [0, 0, 0, 5, 0x61, 0x62] 0 = Inr (0 + 4 + 5, [0x61, 0x62])"
proof -
  have h1: "unpack_from_u32 [0, 0, 0, 5, 0x61, 0x62] 0 = Inr 5"
    by (simp add: unpack_from_u32_def be_u32_def)
  have h2: "length [0, 0, 0, 5, 0x61, 0x62 :: byte] < 0 + 4 + 5" by simp
  show ?thesis using h1 h2 unpack_string_truncated[OF h1 h2] by simp
qed

section \<open>Pose records: the unit conversion\<close>

lemma decode_encode_bone_rigified:
  "decode_bone (encode_bone_rigified T @ rest) =
     Inr \<lparr>loc = translation T,
          rot_wxyz = (case quaternion_xyzw T of (x, y, z, w) \<Rightarrow> (w, x, y, z)),
          sca = scale T\<rparr>"
  by (cases T)
    (auto simp: encode_bone_rigified_def pack_10f_def vec3_mul_def decode_bone_def
          split: prod.splits)

lemma decode_encode_bone_plain:
  "decode_bone (encode_bone_plain T @ rest) =
     Inr \<lparr>loc = vec3_mul (translation T) (1 / 100),
          rot_wxyz = (case quaternion_xyzw T of (x, y, z, w) \<Rightarrow> (w, x, y, z)),
          sca = scale T\<rparr>"
  by (cases T)
    (auto simp: encode_bone_plain_def pack_10f_def vec3_mul_def decode_bone_def
          split: prod.splits)

text \<open>
  C1. The claim: in both branches the encoder multiplies the translation by 100 and the
  decoder by 0.01, so that a translation comes back within 1e-5. The code at an actor
  that is not rigified, with one bone translated by (1, 0, 0): the encoder writes the
  translation as it is, the decoder returns (0.01, 0, 0), which is 0.99 away. (The
  rigified branch does multiply by 100: \<open>decode_encode_bone_rigified\<close>.)
\<close>

theorem encode_pose_plain_branch_unscaled:
  "encode_actor_bones False True
     [\<lparr>bone_name = ''hip'',
       world = \<lparr>translation = (1, 0, 0), quaternion_xyzw = (0, 0, 0, 1), scale = (1, 1, 1)\<rparr>\<rparr>]
     = [1, 0, 0, 0, 0, 0, 1, 1, 1, 1]
   \<and> decode_bones [''hip''] [1, 0, 0, 0, 0, 0, 1, 1, 1, 1]
     = Inr [\<lparr>loc = (1 / 100, 0, 0), rot_wxyz = (1, 0, 0, 0), sca = (1, 1, 1)\<rparr>]
   \<and> \<bar>1 / 100 - (1 :: real)\<bar> > 1 / 100000"
  by (simp add: encode_actor_bones_def encode_bone_plain_def pack_10f_def decode_bone_def
        vec3_mul_def)

section \<open>Connection manager: what closing touches\<close>

text \<open>
  The part of the state that belongs to the actor registry and the sequence session:
  the sequence flag, \<open>LINK_DATA\<close>, the actor objects with their caches, and the actors
  whose samples were written out.
\<close>

lemma written_actors_append:
  "written_actors (es @ [e]) =
     written_actors es @ (case e of WroteActions a \<Rightarrow> [a] | _ \<Rightarrow> [])"
  by (induction es rule: written_actors.induct) (auto split: event.splits)

lemma session_emit:
  "is_sequence (emit e s) = is_sequence s"
  "link_data (emit e s) = link_data s"
  "actor_objs (emit e s) = actor_objs s"
  "written_actors (events (emit e s)) =
     written_actors (events s) @ (case e of WroteActions a \<Rightarrow> [a] | _ \<Rightarrow> [])"
  by (simp_all add: emit_def written_actors_append)

lemma session_stop_timer:
  "is_sequence (stop_timer s) = is_sequence s"
  "link_data (stop_timer s) = link_data s"
  "actor_objs (stop_timer s) = actor_objs s"
  "written_actors (events (stop_timer s)) = written_actors (events s)"
  by (simp_all add: stop_timer_def log_info_def session_emit)

lemma session_stop_client:
  "is_sequence (stop_client s) = is_sequence s"
  "link_data (stop_client s) = link_data s"
  "actor_objs (stop_client s) = actor_objs s"
  "written_actors (events (stop_client s)) = written_actors (events s)"
  by (simp_all add: stop_client_def log_info_def session_emit Let_def)

lemma session_stop_server:
  "is_sequence (stop_server s) = is_sequence s"
  "link_data (stop_server s) = link_data s"
  "actor_objs (stop_server s) = actor_objs s"
  "written_actors (events (stop_server s)) = written_actors (events s)"
  by (simp_all add: stop_server_def log_info_def session_emit Let_def)

lemma session_service_lost:
  "is_sequence (service_lost s) = is_sequence s"
  "link_data (service_lost s) = link_data s"
  "actor_objs (service_lost s) = actor_objs s"
  "written_actors (events (service_lost s)) = written_actors (events s)"
  by (simp_all add: service_lost_def session_stop_server session_stop_client
        session_stop_timer session_emit)

lemma session_send:
  "is_sequence (send op_code binary_data s) = is_sequence s"
  "link_data (send op_code binary_data s) = link_data s"
  "actor_objs (send op_code binary_data s) = actor_objs s"
  "written_actors (events (send op_code binary_data s)) = written_actors (events s)"
  by (auto simp: send_def client_sendall_def log_error_def session_service_lost
        session_emit Let_def split: sum.splits option.splits)

lemma session_service_stop:
  "is_sequence (service_stop s) = is_sequence s"
  "link_data (service_stop s) = link_data s"
  "actor_objs (service_stop s) = actor_objs s"
  "written_actors (events (service_stop s)) = written_actors (events s)"
  by (simp_all add: service_stop_def session_stop_server session_stop_client
        session_stop_timer session_send)

lemma session_service_disconnect:
  "is_sequence (service_disconnect s) = is_sequence s"
  "link_data (service_disconnect s) = link_data s"
  "actor_objs (service_disconnect s) = actor_objs s"
  "written_actors (events (service_disconnect s)) = written_actors (events s)"
  by (simp_all add: service_disconnect_def session_stop_client session_stop_timer
        session_send Let_def)

text \<open>What writing out an actor's cache looks like in the record of events.\<close>

lemma write_sequence_actions_written:
  "written_actors (events (write_sequence_actions a s)) =
     written_actors (events s) @ (if cache (actor_objs s a) \<noteq> None then [a] else [])"
  "cache (actor_objs (write_sequence_actions a s) a) = None"
  by (simp_all add: write_sequence_actions_def emit_def written_actors_append Let_def)

lemmas mid_session_defs =
  mid_session_def connected_to_def LinkService_init_def LinkData_init_def LinkActor_init_def

lemma parse_STOP: "parse E STOP data s =
  (None, service_stop (log_info ''Termination Received'' (s\<lparr>keepalive_timer := KEEPALIVE_TIMEOUT_S\<rparr>)))"
  by (simp add: parse_def OpCodes_defs)

lemma parse_DISCONNECT: "parse E DISCONNECT data s =
  (None, service_disconnect (log_info ''Disconnection Received'' (s\<lparr>keepalive_timer := KEEPALIVE_TIMEOUT_S\<rparr>)))"
  by (simp add: parse_def OpCodes_defs)

lemma stop_server_client:
  "client_sock (stop_server s) = client_sock s"
  "client_sockets (stop_server s) = client_sockets s"
  "is_connected (stop_server s) = is_connected s"
  "is_connecting (stop_server s) = is_connecting s"
  by (simp_all add: stop_server_def log_info_def emit_def Let_def)

lemma stop_client_closes:
  "client_sock (stop_client s) = None"
  "client_sockets (stop_client s) = []"
  "\<not> is_connected (stop_client s)"
  "\<not> is_connecting (stop_client s)"
  by (simp_all add: stop_client_def log_info_def emit_def Let_def)

lemma service_stop_closes:
  "client_sock (service_stop s) = None"
  "client_sockets (service_stop s) = []"
  "\<not> is_connected (service_stop s)"
  "\<not> is_connecting (service_stop s)"
  by (simp_all add: service_stop_def stop_server_client stop_client_closes)

lemma service_lost_closes:
  "client_sock (service_lost s) = None"
  "client_sockets (service_lost s) = []"
  "\<not> is_connected (service_lost s)"
  "\<not> is_connecting (service_lost s)"
  by (simp_all add: service_lost_def stop_server_client stop_client_closes)

lemma service_disconnect_closes:
  "client_sock (service_disconnect s) = None"
  "client_sockets (service_disconnect s) = []"
  "\<not> is_connected (service_disconnect s)"
  "\<not> is_connecting (service_disconnect s)"
  by (simp_all add: service_disconnect_def stop_client_closes Let_def)

text \<open>
  C8. The claim: whenever the connection is closed (STOP, DISCONNECT or connection
  loss) the actor registry is reset to empty. The code at a connected service with the
  actor 7 registered, on receiving STOP: the connection is closed and the registry still
  holds the actor.
\<close>

theorem registry_not_reset_on_stop_counterexample:
  "client_sock (snd (parse quiet_env STOP None mid_session)) = None
   \<and> \<not> is_connected (snd (parse quiet_env STOP None mid_session))
   \<and> actors (link_data (snd (parse quiet_env STOP None mid_session))) = [7]"
proof -
  have "actors (link_data mid_session) = [7]"
    by (simp add: mid_session_defs)
  then show ?thesis
    by (simp add: parse_STOP session_service_stop service_stop_closes log_info_def
          session_emit)
qed

text \<open>
  C8, as amended. Closing the connection, by \<open>service_stop\<close> (STOP),
  \<open>service_disconnect\<close> (DISCONNECT) or \<open>service_lost\<close> (connection loss), leaves
  \<open>LINK_DATA\<close> and with it the actor registry as it was. The registry is emptied by
  \<open>check_service\<close> alone, when it finds the global \<open>LINK_SERVICE\<close> unset.
\<close>

theorem registry_kept_on_close:
  "link_data (service_stop s) = link_data s
   \<and> link_data (service_disconnect s) = link_data s
   \<and> link_data (service_lost s) = link_data s
   \<and> link_data (snd (check_service s)) =
       (if link_service_bound s then link_data s else reset (link_data s))
   \<and> actors (reset d) = []"
  by (simp add: session_service_stop session_service_disconnect session_service_lost
        check_service_def log_error_def emit_def reset_def Let_def)

text \<open>
  C5. The claim: when the connection is closed in the middle of a sequence (STOP or
  DISCONNECT before SEQUENCE_END), the session is discarded (sequence state and
  per-actor caches cleaned up) and nothing is written out. The code in the middle of a
  session, on receiving DISCONNECT: the sequence flag is still set, the session's actor
  list is still there and the actor still holds its cache.
\<close>

theorem session_not_discarded_counterexample:
  "is_sequence (snd (parse quiet_env DISCONNECT None mid_session))
   \<and> sequence_actors (link_data (snd (parse quiet_env DISCONNECT None mid_session))) = Some [7]
   \<and> cache (actor_objs (snd (parse quiet_env DISCONNECT None mid_session)) 7)
       = Some \<lparr>cache_start = 10, cache_end = 13, cache_curves = []\<rparr>"
proof -
  have "is_sequence mid_session"
    and "sequence_actors (link_data mid_session) = Some [7]"
    and "cache (actor_objs mid_session 7)
           = Some \<lparr>cache_start = 10, cache_end = 13, cache_curves = []\<rparr>"
    by (simp_all add: mid_session_defs)
  then show ?thesis
    by (simp add: parse_DISCONNECT session_service_disconnect log_info_def session_emit)
qed

text \<open>
  C5, as amended. When STOP or DISCONNECT is received, \<open>parse\<close> raises nothing, no
  cached samples are written into animation data, and the session is left as it was:
  the sequence flag, the frame range and actor list of \<open>LINK_DATA\<close>, and every
  actor's cache are unchanged.
\<close>

theorem close_mid_session_keeps_session:
  assumes "op_code = STOP \<or> op_code = DISCONNECT"
  shows "fst (parse E op_code data s) = None
       \<and> is_sequence (snd (parse E op_code data s)) = is_sequence s
       \<and> link_data (snd (parse E op_code data s)) = link_data s
       \<and> actor_objs (snd (parse E op_code data s)) = actor_objs s
       \<and> written_actors (events (snd (parse E op_code data s))) = written_actors (events s)"
  using assms
  by (auto simp: parse_STOP parse_DISCONNECT session_service_stop session_service_disconnect
        log_info_def session_emit)

text \<open>The amended C5 at STOP in the middle of a session.\<close>

theorem close_mid_session_keeps_session_witness:
  "(STOP = STOP \<or> STOP = DISCONNECT)
   \<and> fst (parse quiet_env STOP None mid_session) = None
   \<and> is_sequence (snd (parse quiet_env STOP None mid_session))
   \<and> sequence_actors (link_data (snd (parse quiet_env STOP None mid_session))) = Some [7]
   \<and> written_actors (events (snd (parse quiet_env STOP None mid_session))) = []"
proof -
  have h: "STOP = STOP \<or> STOP = DISCONNECT" by simp
  have "is_sequence mid_session"
    and "link_data mid_session = LinkData_init\<lparr>actors := [7], sequence_start_frame := 10,
                                   sequence_end_frame := 13, sequence_actors := Some [7]\<rparr>"
    and "events mid_session = []"
    by (simp_all add: mid_session_defs)
  then show ?thesis
    using close_mid_session_keeps_session[OF h, of quiet_env None mid_session] by simp
qed

section \<open>Starting the server and sending\<close>

text \<open>
  C9. The claim: when \<open>start_server\<close> fails to bind or listen, the failure is logged,
  no server socket is kept and the service does not become Listening. The code on a
  fresh service when \<open>bind\<close> fails: the failure is logged and no server socket is
  kept, but the handler sets \<open>is_listening\<close> to \<open>True\<close>.
\<close>

theorem start_server_failure_sets_listening:
  "\<not> is_listening LinkService_init
   \<and> is_listening (start_server BindFails 5 LinkService_init)
   \<and> server_sock (start_server BindFails 5 LinkService_init) = None
   \<and> server_sockets (start_server BindFails 5 LinkService_init) = []
   \<and> events (start_server BindFails 5 LinkService_init)
       = [LogError ''Unable to start server on TCP *:9334'']"
  by (simp add: start_server_def LinkService_init_def log_error_def emit_def)

lemma start_server_failure:
  "server_sock s = None \<Longrightarrow> outcome \<noteq> ListenOk \<Longrightarrow> is_listening (start_server outcome fd s)"
  by (cases outcome) (simp_all add: start_server_def log_error_def emit_def)

text \<open>
  C10. Without a peer socket, or when the service is neither connected nor connecting,
  \<open>has_client_sock\<close> is false and \<open>send\<close> returns the state it was given: nothing is
  written to any socket, no timer, flag, signal or log entry changes, and no exception
  can arise since no statement of the guarded block runs.
\<close>

theorem send_without_peer_is_noop:
  assumes "client_sock s = None \<or> \<not> (is_connected s \<or> is_connecting s)"
  shows "\<not> has_client_sock s \<and> send op_code binary_data s = s"
  using assms by (auto simp: has_client_sock_def send_def)

text \<open>C10 at a service that holds a socket but is neither connected nor connecting.\<close>

theorem send_without_peer_is_noop_witness:
  "(client_sock (LinkService_init\<lparr>client_sock := Some 0\<rparr>) = None
      \<or> \<not> (is_connected (LinkService_init\<lparr>client_sock := Some 0\<rparr>)
            \<or> is_connecting (LinkService_init\<lparr>client_sock := Some 0\<rparr>)))
   \<and> send NOTIFY (Some [1, 2, 3]) (LinkService_init\<lparr>client_sock := Some 0\<rparr>)
       = LinkService_init\<lparr>client_sock := Some 0\<rparr>"
proof -
  have h: "client_sock (LinkService_init\<lparr>client_sock := Some 0\<rparr>) = None
      \<or> \<not> (is_connected (LinkService_init\<lparr>client_sock := Some 0\<rparr>)
            \<or> is_connecting (LinkService_init\<lparr>client_sock := Some 0\<rparr>))"
    by (simp add: LinkService_init_def)
  show ?thesis
    using h send_without_peer_is_noop[OF h, of NOTIFY "Some [1, 2, 3]"] by blast
qed

section \<open>Receiving: reading one frame\<close>

lemma frame_header:
  assumes "well_formed m"
  obtains hd where "frame m = hd @ payload m" and "length hd = 8"
    and "be_u32 (take 4 hd) = opcode m" and "be_u32 (drop 4 hd) = length (payload m)"
proof -
  from assms have a: "opcode m < 2 ^ 32" and b: "length (payload m) < 2 ^ 32"
    by (simp_all add: well_formed_def)
  obtain x where x: "pack_u32 (opcode m) = Inr x" and bx: "be_u32 x = opcode m"
    using a be_u32_pack[OF a] by (auto simp: pack_u32_def)
  obtain y where y: "pack_u32 (length (payload m)) = Inr y"
    and "by": "be_u32 y = length (payload m)"
    using b be_u32_pack[OF b] by (auto simp: pack_u32_def)
  have lx: "length x = 4" and ly: "length y = 4"
    using x y by (auto dest: pack_u32_length)
  show ?thesis
  proof (rule that[of "x @ y"])
    show "frame m = (x @ y) @ payload m"
      by (simp add: frame_def pack_u32_u32_def x y)
    show "length (x @ y) = 8" by (simp add: lx ly)
    show "be_u32 (take 4 (x @ y)) = opcode m" by (simp add: lx bx)
    show "be_u32 (drop 4 (x @ y)) = length (payload m)" by (simp add: lx "by")
  qed
qed

lemma client_recv_front:
  assumes "client_sock s = Some fd" and "net s fd = Some k" and "cond k \<noteq> SockReset"
    and "inbuf k = bs @ rest" and "bs \<noteq> []" and "n \<le> length bs" and "0 < n"
  shows "client_recv n s =
           Inr (take n bs, s\<lparr>net := (net s)(fd \<mapsto> k\<lparr>inbuf := drop n bs @ rest\<rparr>)\<rparr>)"
  using assms by (simp add: client_recv_def sock_recv_def)

lemma recv_chunks_payload:
  assumes "client_sock s = Some fd" and "net s fd = Some k" and "cond k \<noteq> SockReset"
    and "inbuf k = pl @ rest" and "length pl = sz" and "sz < fuel"
  shows "\<exists>c. recv_chunks fuel sz data chunk s =
           Some (Inr (data @ pl, c), s\<lparr>net := (net s)(fd \<mapsto> k\<lparr>inbuf := rest\<rparr>)\<rparr>)"
  using assms
proof (induction sz arbitrary: pl data chunk s k fuel rule: less_induct)
  case (less sz)
  from less.prems(6) obtain f where fuel: "fuel = Suc f" by (cases fuel) auto
  show ?case
  proof (cases "sz = 0")
    case True
    with less.prems have "pl = []" by simp
    then have "k\<lparr>inbuf := rest\<rparr> = k" using less.prems(4) by simp
    moreover have "(net s)(fd \<mapsto> k) = net s"
      using less.prems(2) by (simp add: fun_upd_idem)
    ultimately show ?thesis using True fuel \<open>pl = []\<close> by simp
  next
    case False
    define n where "n = min sz MAX_CHUNK_SIZE"
    have n: "0 < n" "n \<le> length pl" "n \<le> sz"
      using False less.prems(5) by (simp_all add: n_def MAX_CHUNK_SIZE_def)
    have pl: "pl \<noteq> []" using False less.prems(5) by auto
    let ?k1 = "k\<lparr>inbuf := drop n pl @ rest\<rparr>"
    let ?s1 = "s\<lparr>net := (net s)(fd \<mapsto> ?k1)\<rparr>"
    have r: "client_recv n s = Inr (take n pl, ?s1)"
      by (rule client_recv_front[OF less.prems(1-4) pl n(2) n(1)])
    have "\<exists>c. recv_chunks f (sz - n) (data @ take n pl) (Some (take n pl)) ?s1 =
           Some (Inr ((data @ take n pl) @ drop n pl, c),
                 ?s1\<lparr>net := (net ?s1)(fd \<mapsto> ?k1\<lparr>inbuf := rest\<rparr>)\<rparr>)"
    proof (rule less.IH)
      show "sz - n < sz" using n False by simp
      show "client_sock ?s1 = Some fd" using less.prems(1) by simp
      show "net ?s1 fd = Some ?k1" by simp
      show "cond ?k1 \<noteq> SockReset" using less.prems(3) by simp
      show "inbuf ?k1 = drop n pl @ rest" by simp
      show "length (drop n pl) = sz - n" using less.prems(5) by simp
      show "sz - n < f" using less.prems(6) fuel n by simp
    qed
    then obtain c where c:
      "recv_chunks f (sz - n) (data @ take n pl) (Some (take n pl)) ?s1 =
         Some (Inr (data @ pl, c), s\<lparr>net := (net s)(fd \<mapsto> k\<lparr>inbuf := rest\<rparr>)\<rparr>)"
      by auto
    have len: "length (take n pl) = n" using n(2) by simp
    have "recv_chunks fuel sz data chunk s =
            recv_chunks f (sz - n) (data @ take n pl) (Some (take n pl)) ?s1"
      unfolding fuel using False r by (simp add: n_def[symmetric] len del: length_take)
    with c show ?thesis by (intro exI[of _ c]) (simp only:)
  qed
qed


lemma take_frame_front:
  assumes "net s fd = Some k" and "inbuf k = frame m @ rest"
  shows "take_frame fd m s = s\<lparr>net := (net s)(fd \<mapsto> k\<lparr>inbuf := rest\<rparr>)\<rparr>"
  using assms by (simp add: take_frame_def)

lemma recv_message_frame:
  assumes cs: "client_sock s = Some fd" and net: "net s fd = Some k"
    and cond: "cond k \<noteq> SockReset" and inb: "inbuf k = frame m @ rest"
    and wf: "well_formed m" and fuel: "length (payload m) < fuel"
  shows "\<exists>hd c. recv_message fuel E header chunk count s =
           (case dispatch E fd m s of
              (Some e, s1) \<Rightarrow> Some (Inl e, s1)
            | (None, s1) \<Rightarrow> Some (Inr (Locals (Some hd) c (count + 1) (Some (opcode m))), s1))"
proof -
  from wf obtain hd where fr: "frame m = hd @ payload m" and lhd: "length hd = 8"
    and op: "be_u32 (take 4 hd) = opcode m"
    and sz: "be_u32 (drop 4 hd) = length (payload m)"
    by (rule frame_header)
  let ?k2 = "k\<lparr>inbuf := payload m @ rest\<rparr>"
  let ?s2 = "s\<lparr>net := (net s)(fd \<mapsto> ?k2)\<rparr>"
  let ?s3 = "s\<lparr>net := (net s)(fd \<mapsto> k\<lparr>inbuf := rest\<rparr>)\<rparr>"
  have hd_ne: "hd \<noteq> []" using lhd by auto
  have "client_recv 8 s =
          Inr (take 8 hd, s\<lparr>net := (net s)(fd \<mapsto> k\<lparr>inbuf := drop 8 hd @ (payload m @ rest)\<rparr>)\<rparr>)"
    by (rule client_recv_front[OF cs net cond _ hd_ne]) (simp_all add: inb fr lhd)
  then have hdr: "client_recv 8 s = Inr (hd, ?s2)" by (simp add: lhd)
  have tf: "take_frame fd m s = ?s3" by (rule take_frame_front[OF net inb])
  have "\<exists>c. recv_payload fuel (length (payload m)) chunk ?s2
              = Some (Inr (payload_arg m, c), ?s3)"
  proof (cases "payload m = []")
    case True
    then show ?thesis by (simp add: payload_arg_def recv_payload_def)
  next
    case False
    have "\<exists>c. recv_chunks fuel (length (payload m)) [] chunk ?s2 =
            Some (Inr ([] @ payload m, c), ?s2\<lparr>net := (net ?s2)(fd \<mapsto> ?k2\<lparr>inbuf := rest\<rparr>)\<rparr>)"
      by (rule recv_chunks_payload[where fd = fd and k = "?k2" and rest = rest])
         (simp_all add: cs cond fuel)
    then obtain c where
      "recv_chunks fuel (length (payload m)) [] chunk ?s2 = Some (Inr (payload m, c), ?s3)"
      by auto
    with False show ?thesis by (simp add: payload_arg_def recv_payload_def)
  qed
  then obtain c where c:
    "recv_payload fuel (length (payload m)) chunk ?s2 = Some (Inr (payload_arg m, c), ?s3)" ..
  have "recv_message fuel E header chunk count s =
          (case dispatch E fd m s of
             (Some e, s1) \<Rightarrow> Some (Inl e, s1)
           | (None, s1) \<Rightarrow> Some (Inr (Locals (Some hd) c (count + 1) (Some (opcode m))), s1))"
    unfolding recv_message_def bytes_eq_int_def dispatch_def tf
    by (simp add: hdr lhd hd_ne op sz c Let_def split: prod.splits option.splits)
  then show ?thesis by blast
qed


lemma frame_length: "well_formed m \<Longrightarrow> length (frame m) = 8 + length (payload m)"
  by (erule frame_header) simp

lemma frames_nonempty:
  "ms \<noteq> [] \<Longrightarrow> \<forall>m\<in>set ms. well_formed m \<Longrightarrow> concat (map frame ms) \<noteq> []"
  by (cases ms) (auto dest: frame_length)

lemma select_client_readable:
  assumes "net s fd = Some k" and "inbuf k \<noteq> []"
  shows "select_readable (net s) [fd] = Inr [fd]"
  using assms by (simp add: select_readable_def readable_def)

text \<open>One turn of the outer loop on a complete message, with more input behind it.\<close>

lemma recv_loop_step:
  assumes cs: "client_sock s = Some fd" and net: "net s fd = Some k"
    and cond: "cond k \<noteq> SockReset" and inb: "inbuf k = frame m @ rest"
    and wf: "well_formed m" and fuel: "length (payload m) < fuel"
    and more: "rest \<noteq> []"
    and disp: "dispatch E fd m s = (None, s1)"
    and und: "undisturbed fd (take_frame fd m s) s1"
  shows "\<exists>hd c. recv_loop (Suc fuel) E [fd] header chunk count s =
           (if MAX_RECEIVE \<le> count + 1 \<or> opcode m = NOTIFY
            then Some (None, s1\<lparr>is_data := True\<rparr>)
            else recv_loop fuel E [fd] (Some hd) c (count + 1) (s1\<lparr>is_data := True\<rparr>))"
proof -
  from recv_message_frame[OF cs net cond inb wf fuel, of E header chunk count] disp
  obtain hd c where msg:
    "recv_message fuel E header chunk count s =
       Some (Inr (Locals (Some hd) c (count + 1) (Some (opcode m))), s1)"
    by auto
  have tf: "take_frame fd m s = s\<lparr>net := (net s)(fd \<mapsto> k\<lparr>inbuf := rest\<rparr>)\<rparr>"
    by (rule take_frame_front[OF net inb])
  from und obtain k1 where k1: "net s1 fd = Some k1" and in1: "inbuf k1 = rest"
    and socks: "client_sockets s1 = [fd]" and has: "has_client_sock (s1\<lparr>is_data := False\<rparr>)"
    by (auto simp: undisturbed_def tf has_client_sock_def)
  have sel: "select_readable (net s1) (client_sockets s1) = Inr [fd]"
    using select_client_readable[of s1 fd k1] k1 in1 more socks by simp
  have "recv_loop (Suc fuel) E [fd] header chunk count s =
           (if MAX_RECEIVE \<le> count + 1 \<or> opcode m = NOTIFY
            then Some (None, s1\<lparr>is_data := True\<rparr>)
            else recv_loop fuel E [fd] (Some hd) c (count + 1) (s1\<lparr>is_data := True\<rparr>))"
    by (simp add: msg has sel Let_def)
  then show ?thesis by blast
qed

lemma recv_loop_queue:
  assumes "dispatch_all E fd pre s = Some s'" and "pre \<noteq> []" and "post \<noteq> []"
    and "\<forall>m\<in>set (pre @ post). well_formed m"
    and "client_sock s = Some fd" and "net s fd = Some k" and "cond k \<noteq> SockReset"
    and "inbuf k = concat (map frame (pre @ post))"
    and "\<forall>m\<in>set (butlast pre). opcode m \<noteq> NOTIFY"
    and "count + length pre \<le> MAX_RECEIVE"
    and "count + length pre = MAX_RECEIVE \<or> opcode (last pre) = NOTIFY"
    and "length (inbuf k) < fuel"
  shows "recv_loop fuel E [fd] header chunk count s = Some (None, s')"
  using assms
proof (induction pre arbitrary: s k count header chunk fuel)
  case Nil
  then show ?case by simp
next
  case (Cons m ms)
  let ?rest = "concat (map frame (ms @ post))"
  have wf: "well_formed m" and wfs: "\<forall>m\<in>set (ms @ post). well_formed m"
    using Cons.prems(4) by auto
  have inb: "inbuf k = frame m @ ?rest" using Cons.prems(8) by simp
  have more: "?rest \<noteq> []"
    using frames_nonempty[of "ms @ post"] Cons.prems(3) wfs by simp
  have len: "length (inbuf k) = 8 + length (payload m) + length ?rest"
    using inb frame_length[OF wf] by simp
  from Cons.prems(12) obtain f where fuel: "fuel = Suc f" by (cases fuel) auto
  have pf: "length (payload m) < f" and rf: "length ?rest < f"
    using Cons.prems(12) len fuel by simp_all
  from Cons.prems(1) obtain s1 where disp: "dispatch E fd m s = (None, s1)"
    and und: "undisturbed fd (take_frame fd m s) s1"
    and rest_run: "dispatch_all E fd ms (s1\<lparr>is_data := True\<rparr>) = Some s'"
    by (auto split: prod.splits option.splits if_splits)
  from recv_loop_step[OF Cons.prems(5,6,7) inb wf pf more disp und, of header chunk count]
  obtain hd c where step:
    "recv_loop (Suc f) E [fd] header chunk count s =
       (if MAX_RECEIVE \<le> count + 1 \<or> opcode m = NOTIFY
        then Some (None, s1\<lparr>is_data := True\<rparr>)
        else recv_loop f E [fd] (Some hd) c (count + 1) (s1\<lparr>is_data := True\<rparr>))"
    by blast
  show ?case
  proof (cases "ms = []")
    case True
    with rest_run have "s' = s1\<lparr>is_data := True\<rparr>" by simp
    moreover have "MAX_RECEIVE \<le> count + 1 \<or> opcode m = NOTIFY"
      using Cons.prems(11) True by auto
    ultimately show ?thesis using step fuel by simp
  next
    case False
    have tf: "take_frame fd m s = s\<lparr>net := (net s)(fd \<mapsto> k\<lparr>inbuf := ?rest\<rparr>)\<rparr>"
      by (rule take_frame_front[OF Cons.prems(6) inb])
    from und obtain k1 where k1: "net (s1\<lparr>is_data := True\<rparr>) fd = Some k1"
      and in1: "inbuf k1 = ?rest" and c1: "cond k1 = cond k"
      and cs1: "client_sock (s1\<lparr>is_data := True\<rparr>) = Some fd"
      by (auto simp: undisturbed_def tf)
    have small: "\<not> (MAX_RECEIVE \<le> count + 1 \<or> opcode m = NOTIFY)"
      using Cons.prems(9,10) False by (cases ms) auto
    have "recv_loop f E [fd] (Some hd) c (count + 1) (s1\<lparr>is_data := True\<rparr>) = Some (None, s')"
    proof (rule Cons.IH[OF rest_run False Cons.prems(3) wfs cs1 k1])
      show "cond k1 \<noteq> SockReset" using c1 Cons.prems(7) by simp
      show "inbuf k1 = ?rest" by (rule in1)
      show "\<forall>m\<in>set (butlast ms). opcode m \<noteq> NOTIFY"
        using Cons.prems(9) False by simp
      show "count + 1 + length ms \<le> MAX_RECEIVE" using Cons.prems(10) by simp
      show "count + 1 + length ms = MAX_RECEIVE \<or> opcode (last ms) = NOTIFY"
        using Cons.prems(11) False by simp
      show "length (inbuf k1) < f" using in1 rf by simp
    qed
    with step small fuel show ?thesis by simp
  qed
qed

lemma dispatch_all_socket:
  assumes "dispatch_all E fd pre s = Some s'" and "pre \<noteq> []"
    and "net s fd = Some k" and "inbuf k = concat (map frame (pre @ post))"
  shows "map_option inbuf (net s' fd) = Some (concat (map frame post)) \<and> is_data s'
         \<and> has_client_sock s'"
  using assms
proof (induction pre arbitrary: s k)
  case Nil
  then show ?case by simp
next
  case (Cons m ms)
  let ?rest = "concat (map frame (ms @ post))"
  have inb: "inbuf k = frame m @ ?rest" using Cons.prems(4) by simp
  have tf: "take_frame fd m s = s\<lparr>net := (net s)(fd \<mapsto> k\<lparr>inbuf := ?rest\<rparr>)\<rparr>"
    by (rule take_frame_front[OF Cons.prems(3) inb])
  from Cons.prems(1) obtain s1 where und: "undisturbed fd (take_frame fd m s) s1"
    and rest_run: "dispatch_all E fd ms (s1\<lparr>is_data := True\<rparr>) = Some s'"
    by (auto split: prod.splits option.splits if_splits)
  from und obtain k1 where k1: "net (s1\<lparr>is_data := True\<rparr>) fd = Some k1"
    and in1: "inbuf k1 = ?rest"
    and has: "has_client_sock (s1\<lparr>is_data := True\<rparr>)"
    by (auto simp: undisturbed_def tf has_client_sock_def)
  show ?case
  proof (cases "ms = []")
    case True
    with rest_run have "s' = s1\<lparr>is_data := True\<rparr>" by simp
    with k1 in1 has True show ?thesis by simp
  next
    case False
    from Cons.IH[OF rest_run False k1 in1] show ?thesis .
  qed
qed

section \<open>Receiving: the cap on messages and NOTIFY\<close>

lemmas recv_loop_numeral = recv_loop.simps(2)[of "pred_numeral k" for k, folded numeral_eq_Suc]

lemma frame_ping: "frame ping_message = [0, 0, 0, 2, 0, 0, 0, 0]"
  by (simp add: frame_def ping_message_def pack_u32_u32_def pack_u32_def PING_def)

lemma frame_stop: "frame stop_message = [0, 0, 0, 10, 0, 0, 0, 0]"
  by (simp add: frame_def stop_message_def pack_u32_u32_def pack_u32_def STOP_def)

text \<open>
  C3. The claim: with more than \<open>MAX_RECEIVE\<close> complete messages waiting, none of
  them NOTIFY, one call of \<open>recv\<close> parses exactly \<open>MAX_RECEIVE\<close> of them. The code
  with 25 messages waiting, none of them NOTIFY, the first of them STOP: \<open>recv\<close>
  returns after that one message (the test after \<open>parse\<close> finds the client socket
  gone), and the frames of the other 24 are still unread.
\<close>

theorem recv_stops_at_STOP_counterexample:
  "map_option (\<lambda>(e, s'). (e, received_opcodes (events s'), map_option inbuf (net s' 0)))
     (recv 201 quiet_env (queued 0 (stop_message # replicate 24 ping_message)))
   = Some (None, [STOP], Some (concat (replicate 24 (frame ping_message))))"
  by (simp add: queued_def frame_ping frame_stop recv_def connected_to_def LinkService_init_def
        has_client_sock_def select_readable_def readable_def recv_loop_numeral
        recv_message_def bytes_eq_int_def client_recv_def sock_recv_def be_u32_def recv_payload_def
        parse_def OpCodes_defs service_stop_def send_def pack_u32_u32_def pack_u32_def
        client_sendall_def sock_sendall_def stop_timer_def stop_client_def stop_server_def
        log_info_def emit_def Let_def)


text \<open>
  C3, as amended. The unread input of the peer socket is the frames of the messages
  \<open>pre\<close> followed by those of \<open>post\<close>, with \<open>post\<close> not empty; no message of
  \<open>pre\<close> before its last is NOTIFY; \<open>pre\<close> has \<open>MAX_RECEIVE\<close> messages, or it has
  at most that many and its last one is NOTIFY; and dispatching the messages of \<open>pre\<close>
  one after the other raises nothing and leaves the peer socket in place (so none of
  them is a STOP or DISCONNECT that closes it). Then one call of \<open>recv\<close>, given fuel
  for the bytes that wait, returns normally with exactly the messages of \<open>pre\<close>
  dispatched, in order; the frames of \<open>post\<close> are left unread for the next call and
  \<open>is_data\<close> is set.
\<close>

theorem recv_cap_and_notify:
  assumes "client_sock s = Some fd" and "client_sockets s = [fd]"
    and "is_connected s \<or> is_connecting s"
    and "net s fd = Some k" and "cond k \<noteq> SockReset"
    and "inbuf k = concat (map frame (pre @ post))"
    and "\<forall>m\<in>set (pre @ post). well_formed m"
    and "pre \<noteq> []" and "post \<noteq> []"
    and "\<forall>m\<in>set (butlast pre). opcode m \<noteq> NOTIFY"
    and "length pre = MAX_RECEIVE \<or> (length pre \<le> MAX_RECEIVE \<and> opcode (last pre) = NOTIFY)"
    and "dispatch_all E fd pre (s\<lparr>is_data := False\<rparr>) = Some s'"
    and "length (inbuf k) < fuel"
  shows "recv fuel E s = Some (None, s')
         \<and> map_option inbuf (net s' fd) = Some (concat (map frame post))
         \<and> is_data s'"
proof -
  let ?s0 = "s\<lparr>is_data := False\<rparr>"
  have has: "has_client_sock ?s0"
    using assms(1,3) by (auto simp: has_client_sock_def)
  have ne: "inbuf k \<noteq> []"
    using frames_nonempty[of "pre @ post"] assms(6,7,8) by simp
  have sel: "select_readable (net s) (client_sockets s) = Inr [fd]"
    using select_client_readable[OF assms(4) ne] assms(2) by simp
  have cs0: "client_sock ?s0 = Some fd" and net0: "net ?s0 fd = Some k"
    using assms(1,4) by simp_all
  have "recv_loop fuel E [fd] None None 0 ?s0 = Some (None, s')"
    by (rule recv_loop_queue[OF assms(12) assms(8) assms(9) assms(7) cs0 net0 assms(5)
          assms(6) assms(10) _ _ assms(13)])
       (use assms(11) in auto)
  then have "recv fuel E s = Some (None, s')"
    by (simp add: recv_def has sel Let_def)
  moreover have "map_option inbuf (net s' fd) = Some (concat (map frame post)) \<and> is_data s'"
    using dispatch_all_socket[OF assms(12) assms(8) net0 assms(6)] by simp
  ultimately show ?thesis by simp
qed

lemma length_concat_replicate: "length (concat (replicate n xs)) = n * length xs"
  by (induction n) simp_all

lemma ping_fields: "opcode ping_message = PING" "payload ping_message = []"
  by (simp_all add: ping_message_def)

lemma well_formed_ping: "well_formed ping_message"
  by (simp add: well_formed_def ping_message_def PING_def)

lemma received_opcodes_append:
  "received_opcodes (xs @ ys) = received_opcodes xs @ received_opcodes ys"
  by (induction xs rule: received_opcodes.induct) auto

lemma dispatch_all_pings:
  assumes "client_sock s = Some fd" and "client_sockets s = [fd]"
    and "is_connected s \<or> is_connecting s"
    and "net s fd = Some k" and "inbuf k = concat (replicate n (frame ping_message)) @ rest"
  shows "\<exists>s'. dispatch_all E fd (replicate n ping_message) s = Some s'
           \<and> received_opcodes (events s') = received_opcodes (events s) @ replicate n PING"
  using assms
proof (induction n arbitrary: s k)
  case 0
  then show ?case by simp
next
  case (Suc n)
  let ?rest = "concat (replicate n (frame ping_message)) @ rest"
  let ?s0 = "s\<lparr>net := (net s)(fd \<mapsto> k\<lparr>inbuf := ?rest\<rparr>)\<rparr>"
  let ?s1 = "emit (SigReceived PING None)
               (log_info ''Ping Received'' (?s0\<lparr>keepalive_timer := KEEPALIVE_TIMEOUT_S\<rparr>))"
  have inb: "inbuf k = frame ping_message @ ?rest" using Suc.prems(5) by simp
  have tf: "take_frame fd ping_message s = ?s0"
    by (rule take_frame_front[OF Suc.prems(4) inb])
  have disp: "dispatch E fd ping_message s = (None, ?s1)"
    unfolding dispatch_def tf
    by (simp add: parse_def ping_fields payload_arg_def OpCodes_defs)
  have und: "undisturbed fd (take_frame fd ping_message s) ?s1"
    using Suc.prems(1,2,3) by (simp add: tf undisturbed_def emit_def log_info_def)
  have "\<exists>s'. dispatch_all E fd (replicate n ping_message) (?s1\<lparr>is_data := True\<rparr>) = Some s'
          \<and> received_opcodes (events s')
              = received_opcodes (events (?s1\<lparr>is_data := True\<rparr>)) @ replicate n PING"
  proof (rule Suc.IH)
    show "client_sock (?s1\<lparr>is_data := True\<rparr>) = Some fd"
      using Suc.prems(1) by (simp add: emit_def log_info_def)
    show "client_sockets (?s1\<lparr>is_data := True\<rparr>) = [fd]"
      using Suc.prems(2) by (simp add: emit_def log_info_def)
    show "is_connected (?s1\<lparr>is_data := True\<rparr>) \<or> is_connecting (?s1\<lparr>is_data := True\<rparr>)"
      using Suc.prems(3) by (simp add: emit_def log_info_def)
    show "net (?s1\<lparr>is_data := True\<rparr>) fd = Some (k\<lparr>inbuf := ?rest\<rparr>)"
      by (simp add: emit_def log_info_def)
    show "inbuf (k\<lparr>inbuf := ?rest\<rparr>) = concat (replicate n (frame ping_message)) @ rest"
      by simp
  qed
  then obtain s' where run: "dispatch_all E fd (replicate n ping_message) (?s1\<lparr>is_data := True\<rparr>) = Some s'"
    and ev: "received_opcodes (events s')
              = received_opcodes (events (?s1\<lparr>is_data := True\<rparr>)) @ replicate n PING"
    by blast
  have "received_opcodes (events (?s1\<lparr>is_data := True\<rparr>)) = received_opcodes (events s) @ [PING]"
    by (simp add: emit_def log_info_def received_opcodes_append)
  with ev have "received_opcodes (events s') = received_opcodes (events s) @ replicate (Suc n) PING"
    by (simp add: replicate_app_Cons_same)
  moreover have "dispatch_all E fd (replicate (Suc n) ping_message) s = Some s'"
    using disp und run by simp
  ultimately show ?case by blast
qed

text \<open>
  The amended C3 with 25 PING messages waiting: 24 are handed on, the frame of the last
  one stays unread.
\<close>

theorem recv_cap_and_notify_witness:
  "\<exists>s'. recv 201 quiet_env (queued 0 (replicate 24 ping_message @ [ping_message]))
           = Some (None, s')
         \<and> received_opcodes (events s') = replicate 24 PING
         \<and> map_option inbuf (net s' 0) = Some (frame ping_message)
         \<and> is_data s'"
proof -
  let ?pre = "replicate 24 ping_message"
  let ?post = "[ping_message]"
  let ?s = "queued 0 (?pre @ ?post)"
  let ?k = "\<lparr>inbuf = concat (map frame (?pre @ ?post)), outbuf = [],
             cond = SockOpen, backlog = []\<rparr>"
  have h1: "client_sock ?s = Some 0" and h2: "client_sockets ?s = [0]"
    and h3: "is_connected ?s \<or> is_connecting ?s" and h4: "net ?s 0 = Some ?k"
    and ev0: "events ?s = []"
    by (simp_all add: queued_def connected_to_def LinkService_init_def)
  have h5: "cond ?k \<noteq> SockReset" by simp
  have h6: "inbuf ?k = concat (map frame (?pre @ ?post))" by simp
  have h7: "\<forall>m\<in>set (?pre @ ?post). well_formed m" by (simp add: well_formed_ping)
  have h8: "?pre \<noteq> []" and h9: "?post \<noteq> []" by simp_all
  have h10: "\<forall>m\<in>set (butlast ?pre). opcode m \<noteq> NOTIFY"
    by (auto dest!: in_set_butlastD simp: ping_fields OpCodes_defs)
  have h11: "length ?pre = MAX_RECEIVE \<or> (length ?pre \<le> MAX_RECEIVE \<and> opcode (last ?pre) = NOTIFY)"
    by (simp add: MAX_RECEIVE_def)
  have "\<exists>s'. dispatch_all quiet_env 0 ?pre (?s\<lparr>is_data := False\<rparr>) = Some s'
          \<and> received_opcodes (events s')
              = received_opcodes (events (?s\<lparr>is_data := False\<rparr>)) @ replicate 24 PING"
    by (rule dispatch_all_pings[where k = ?k and rest = "frame ping_message"])
       (simp_all add: h1 h2 h3 h4)
  then obtain s' where h12: "dispatch_all quiet_env 0 ?pre (?s\<lparr>is_data := False\<rparr>) = Some s'"
    and ev: "received_opcodes (events s') = replicate 24 PING"
    by (auto simp: ev0)
  have h13: "length (inbuf ?k) < 201"
    by (simp add: frame_ping length_concat_replicate)
  from recv_cap_and_notify[OF h1 h2 h3 h4 h5 h6 h7 h8 h9 h10 h11 h12 h13] ev
  show ?thesis by auto
qed

section \<open>Dispatch: what a handler raises\<close>








section \<open>Receiving: an orderly close\<close>

lemma recv_loop_after_close:
  assumes "client_sock s = Some fd" and "client_sockets s = [fd]"
    and "is_connected s \<or> is_connecting s"
    and "net s fd = Some k" and "inbuf k = []" and "cond k = PeerClosed"
    and "count < MAX_RECEIVE"
  shows "recv_loop fuel E [fd] header chunk count s = None"
  using assms
proof (induction fuel arbitrary: s header)
  case 0
  then show ?case by simp
next
  case (Suc fuel)
  let ?s1 = "s\<lparr>net := (net s)(fd \<mapsto> k)\<rparr>"
  have rd: "client_recv 8 s = Inr ([], ?s1)"
    using Suc.prems by (simp add: client_recv_def sock_recv_def)
  have msg: "recv_message fuel E header chunk count s = Some (Inr (Locals (Some []) chunk count None), ?s1)"
    by (simp add: recv_message_def bytes_eq_int_def rd)
  have has: "has_client_sock (?s1\<lparr>is_data := False\<rparr>)"
    using Suc.prems(1,3) by (auto simp: has_client_sock_def)
  have sel: "select_readable ((net s)(fd \<mapsto> k)) (client_sockets s) = Inr [fd]"
    using Suc.prems(2,6) by (simp add: select_readable_def readable_def)
  have "recv_loop fuel E [fd] (Some []) chunk count (?s1\<lparr>is_data := True\<rparr>) = None"
    by (rule Suc.IH) (use Suc.prems in simp_all)
  then show ?case
    using Suc.prems(7) by (simp add: msg has sel Let_def)
qed

text \<open>
  C2. The claim: when the peer closes in an orderly way (the header read yields an
  empty result), the connection becomes Closed, \<open>lost_connection\<close> is emitted and
  the loop stops using the socket. The code on a connected service whose peer has closed
  and left nothing unread: \<open>recv(8)\<close> returns the empty bytes object, which is not
  equal to 0, so \<open>service_lost\<close> is not called; the socket stays readable, no
  message is counted, and the loop goes round without end. Whatever the fuel, \<open>recv\<close>
  does not return. (After a socket error \<open>service_lost\<close> does run:
  \<open>recv_socket_error\<close>.)
\<close>

theorem recv_spins_after_orderly_close:
  "recv fuel E (connected_to fd \<lparr>inbuf = [], outbuf = sent, cond = PeerClosed, backlog = []\<rparr>)
     = None"
proof -
  let ?k = "\<lparr>inbuf = [], outbuf = sent, cond = PeerClosed, backlog = []\<rparr>"
  let ?s0 = "(connected_to fd ?k)\<lparr>is_data := False\<rparr>"
  have has: "has_client_sock ?s0"
    by (simp add: has_client_sock_def connected_to_def)
  have sel: "select_readable (net ?s0) (client_sockets ?s0) = Inr [fd]"
    by (simp add: select_readable_def readable_def connected_to_def)
  have "recv_loop fuel E [fd] None None 0 ?s0 = None"
    by (rule recv_loop_after_close[where k = ?k])
       (simp_all add: connected_to_def MAX_RECEIVE_def)
  then show ?thesis
    unfolding recv_def Let_def using has sel by simp
qed

lemma recv_socket_error:
  "\<exists>s'. recv (Suc fuel) E (connected_to fd \<lparr>inbuf = [], outbuf = sent, cond = SockReset, backlog = []\<rparr>)
           = Some (Some UnboundLocalError, s')
        \<and> client_sock s' = None \<and> \<not> is_connected s' \<and> SigLostConnection \<in> set (events s')"
  by (simp add: recv_def connected_to_def LinkService_init_def has_client_sock_def
        select_readable_def readable_def recv_message_def bytes_eq_int_def client_recv_def sock_recv_def
        service_lost_def stop_timer_def stop_client_def stop_server_def log_error_def
        log_info_def emit_def Let_def)

end
